theory Spec2Isabelle
  imports Main
begin

section \<open>The resource descriptor of vault-sidekick (vault_resource.go)\<close>

subsection \<open>Option keys and lookup tables\<close>

definition OptionFilename :: string where "OptionFilename = ''fn''"
definition OptionFormat :: string where "OptionFormat = ''fmt''"
definition OptionCommonName :: string where "OptionCommonName = ''cn''"
definition OptionTemplatePath :: string where "OptionTemplatePath = ''tpl''"
definition OptionRenewal :: string where "OptionRenewal = ''rn''"
definition OptionRevoke :: string where "OptionRevoke = ''rv''"
definition OptionUpdate :: string where "OptionUpdate = ''up''"

text \<open>
  \<^verbatim>\<open>resourceFormatRegex = regexp.MustCompile("^(yaml|json|ini|txt|cert|csv)$")\<close>.
  The pattern is an alternation of six literals anchored at both ends, and Go's \<^verbatim>\<open>$\<close>
  (no multi-line flag) matches at the end of the text only, so \<^verbatim>\<open>MatchString\<close> holds of
  exactly the six words.
\<close>

definition resourceFormatRegex_MatchString :: "string \<Rightarrow> bool" where
  "resourceFormatRegex_MatchString s \<longleftrightarrow>
     s \<in> set [''yaml'', ''json'', ''ini'', ''txt'', ''cert'', ''csv'']"

text \<open>The map of valid resources; the code only tests whether a key is present.\<close>

definition validResources :: "string \<rightharpoonup> bool" where
  "validResources = map_of
     [(''pki'', True), (''aws'', True), (''secret'', True), (''mysql'', True),
      (''tpl'', True), (''postgres'', True), (''cassandra'', True)]"

subsection \<open>The descriptor\<close>

text \<open>\<^verbatim>\<open>time.Duration\<close> is a count of nanoseconds; the code only stores it.\<close>

type_synonym Duration = int

record VaultResource =
  resource :: string
  name :: string
  format :: string
  renewable :: bool
  revoked :: bool
  update :: Duration
  options :: "string \<rightharpoonup> string"

definition defaultVaultResource :: VaultResource where
  "defaultVaultResource =
     \<lparr>resource = '''', name = '''', format = ''yaml'', renewable = False, revoked = False,
      update = 0, options = Map.empty\<rparr>"

text \<open>A Go map read with the one-value form yields the empty string for a missing key.\<close>

definition index :: "(string \<rightharpoonup> string) \<Rightarrow> string \<Rightarrow> string" where
  "index m k = (case m k of None \<Rightarrow> '''' | Some v \<Rightarrow> v)"

subsection \<open>What the code takes from outside\<close>

text \<open>
  \<^verbatim>\<open>time.ParseDuration\<close> and \<^verbatim>\<open>strconv.ParseBool\<close> belong to the Go standard library and
  \<^verbatim>\<open>fileExists\<close> is a helper defined outside vault_resource.go that asks the filesystem.
  The validator only looks at whether each of them reports an error (for \<^verbatim>\<open>fileExists\<close>:
  at the boolean, the error is dropped), so they are parameters: a parser returns
  \<open>None\<close> where the Go function returns a non-nil error.
\<close>

record env =
  ParseDuration :: "string \<Rightarrow> Duration option"
  ParseBool :: "string \<Rightarrow> bool option"
  fileExists :: "string \<Rightarrow> bool"

text \<open>
  For the concrete examples: \<^verbatim>\<open>strconv.ParseBool\<close> as the Go library documents it, a
  table of a few results of \<^verbatim>\<open>time.ParseDuration\<close> (in nanoseconds), and a filesystem
  holding one file.
\<close>

definition strconv_ParseBool :: "string \<Rightarrow> bool option" where
  "strconv_ParseBool s =
     (if s \<in> set [''1'', ''t'', ''T'', ''TRUE'', ''true'', ''True''] then Some True
      else if s \<in> set [''0'', ''f'', ''F'', ''FALSE'', ''false'', ''False''] then Some False
      else None)"

definition example_env :: env where
  "example_env =
     \<lparr>ParseDuration = map_of [(''2h'', 7200000000000), (''1h'', 3600000000000),
                               (''500ms'', 500000000), (''45s'', 45000000000)],
      ParseBool = strconv_ParseBool,
      fileExists = (\<lambda>p. p = ''/etc/motd'')\<rparr>"

subsection \<open>Errors\<close>

text \<open>
  The code builds its errors with \<^verbatim>\<open>fmt.Errorf\<close>; one constructor stands for each
  message, carrying the values the message is formatted with. \<open>InvalidBoolean\<close> also
  records which of the two boolean options was being read.
\<close>

datatype option_error =
    InvalidFormat string
  | InvalidDuration string
  | InvalidBoolean string string
  | TemplateNotFound string

datatype resource_error = MissingRequiredOption string string

datatype error =
    UnsupportedResourceType string
  | InvalidResourceOptions option_error
  | InvalidResource string resource_error

fun option_error_text :: "option_error \<Rightarrow> string" where
  "option_error_text (InvalidFormat v) = ''unsupported output format: '' @ v"
| "option_error_text (InvalidDuration v) =
     ''the update option: '' @ v @ '' is not value, should be a duration format''"
| "option_error_text (InvalidBoolean k v) =
     (if k = OptionRevoke then ''the revoke option: '' else ''the renewal option: '')
       @ v @ '' is invalid, should be a boolean''"
| "option_error_text (TemplateNotFound v) = ''the template file: '' @ v @ '' does not exist''"

fun resource_error_text :: "resource_error \<Rightarrow> string" where
  "resource_error_text (MissingRequiredOption res opt) =
     (if res = ''pki'' then ''pki resource requires a common name specified''
      else ''template resource requires a template path option'')"

fun error_text :: "error \<Rightarrow> string" where
  "error_text (UnsupportedResourceType v) = ''unsupported resource type: '' @ v"
| "error_text (InvalidResourceOptions e) = ''invalid resource options, '' @ option_error_text e"
| "error_text (InvalidResource d e) =
     ''invalid resource: '' @ d @ '', '' @ resource_error_text e"

subsection \<open>The operations\<close>

definition String :: "VaultResource \<Rightarrow> string" where
  "String r = resource r @ ''/'' @ name r"

definition GetFilename :: "VaultResource \<Rightarrow> string" where
  "GetFilename r =
     (case options r OptionFilename of
        Some path \<Rightarrow> path
      | None \<Rightarrow> name r @ ''.'' @ resource r)"

definition isValidResource :: "VaultResource \<Rightarrow> resource_error option" where
  "isValidResource r =
     (if resource r = ''pki'' then
        (if options r OptionCommonName = None
         then Some (MissingRequiredOption ''pki'' OptionCommonName) else None)
      else if resource r = ''tpl'' then
        (if options r OptionTemplatePath = None
         then Some (MissingRequiredOption ''tpl'' OptionTemplatePath) else None)
      else None)"

text \<open>
  The body of the loop of \<^verbatim>\<open>isValidOptions\<close> for one entry \<open>(opt, val)\<close>: the error it
  returns with, if any, and the descriptor as the pointer receiver leaves it.
\<close>

definition isValidOption ::
  "env \<Rightarrow> string \<Rightarrow> string \<Rightarrow> VaultResource \<Rightarrow> option_error option \<times> VaultResource" where
  "isValidOption e opt val r =
     (if opt = OptionFormat then
        (if \<not> resourceFormatRegex_MatchString (index (options r) OptionFormat)
         then (Some (InvalidFormat (index (options r) OptionFormat)), r)
         else (None, r\<lparr>format := val\<rparr>))
      else if opt = OptionUpdate then
        (case ParseDuration e val of
           None \<Rightarrow> (Some (InvalidDuration val), r)
         | Some duration \<Rightarrow> (None, r\<lparr>update := duration\<rparr>))
      else if opt = OptionRevoke then
        (case ParseBool e val of
           None \<Rightarrow> (Some (InvalidBoolean OptionRevoke val), r)
         | Some choice \<Rightarrow> (None, r\<lparr>revoked := choice\<rparr>))
      else if opt = OptionRenewal then
        (case ParseBool e val of
           None \<Rightarrow> (Some (InvalidBoolean OptionRenewal val), r)
         | Some choice \<Rightarrow> (None, r\<lparr>renewable := choice\<rparr>))
      else if opt = OptionFilename then (None, r)
      else if opt = OptionCommonName then (None, r)
      else if opt = OptionTemplatePath then
        (if \<not> fileExists e val then (Some (TemplateNotFound val), r) else (None, r))
      else (None, r))"

text \<open>
  \<^verbatim>\<open>for opt, val := range r.options\<close> visits every key of the map once, in an order Go
  leaves unspecified and changes from one loop to the next. The order of a run is the
  list \<open>ks\<close> of keys; \<open>val\<close> is the map's value at the key. The loop does not change the
  map, so a key of the order is always bound (the \<open>None\<close> branch only makes the function
  total on lists that are not an order of the map).
\<close>

fun isValidOptions ::
  "env \<Rightarrow> string list \<Rightarrow> VaultResource \<Rightarrow> option_error option \<times> VaultResource" where
  "isValidOptions e [] r = (None, r)"
| "isValidOptions e (opt # ks) r =
     (case options r opt of
        None \<Rightarrow> isValidOptions e ks r
      | Some val \<Rightarrow>
          (case isValidOption e opt val r of
             (Some err, r') \<Rightarrow> (Some err, r')
           | (None, r') \<Rightarrow> isValidOptions e ks r'))"

definition range_order :: "(string \<rightharpoonup> string) \<Rightarrow> string list \<Rightarrow> bool" where
  "range_order m ks \<longleftrightarrow> distinct ks \<and> set ks = dom m"

definition IsValid :: "env \<Rightarrow> string list \<Rightarrow> VaultResource \<Rightarrow> error option \<times> VaultResource" where
  "IsValid e ks r =
     (if validResources (resource r) = None
      then (Some (UnsupportedResourceType (resource r)), r)
      else
        (case isValidOptions e ks r of
           (Some err, r') \<Rightarrow> (Some (InvalidResourceOptions err), r')
         | (None, r') \<Rightarrow>
             (case isValidResource r' of
                Some err \<Rightarrow> (Some (InvalidResource (String r') err), r')
              | None \<Rightarrow> (None, r'))))"

subsection \<open>Notions used to state the properties\<close>

text \<open>
  \<open>entry_error e r opt\<close> is the error with which the loop body returns when it visits
  the key \<open>opt\<close> of the descriptor's map (\<open>None\<close> when it goes on to the next key).
  \<open>settle e K r\<close> is the descriptor whose four cached fields hold the parsed values of
  those of their option keys that lie in \<open>K\<close>; it is shown below to be what the loop
  leaves behind once it has visited the keys \<open>K\<close> without error.
\<close>

definition entry_error :: "env \<Rightarrow> VaultResource \<Rightarrow> string \<Rightarrow> option_error option" where
  "entry_error e r opt =
     (case options r opt of None \<Rightarrow> None | Some val \<Rightarrow> fst (isValidOption e opt val r))"

definition cached ::
  "(string \<rightharpoonup> string) \<Rightarrow> string set \<Rightarrow> string \<Rightarrow> (string \<Rightarrow> 'a option) \<Rightarrow> 'a \<Rightarrow> 'a" where
  "cached m K key parse old =
     (case m key of
        None \<Rightarrow> old
      | Some v \<Rightarrow> if key \<in> K then (case parse v of None \<Rightarrow> old | Some x \<Rightarrow> x) else old)"

definition settle :: "env \<Rightarrow> string set \<Rightarrow> VaultResource \<Rightarrow> VaultResource" where
  "settle e K r = r
     \<lparr>format := cached (options r) K OptionFormat Some (format r),
      update := cached (options r) K OptionUpdate (ParseDuration e) (update r),
      revoked := cached (options r) K OptionRevoke (ParseBool e) (revoked r),
      renewable := cached (options r) K OptionRenewal (ParseBool e) (renewable r)\<rparr>"

definition typed_keys :: "string set" where
  "typed_keys = {OptionFormat, OptionUpdate, OptionRevoke, OptionRenewal, OptionTemplatePath}"

subsection \<open>Example descriptors\<close>

text \<open>
  The descriptor of the worked example (a secret named db-pass, to be written as json
  and refreshed every two hours), and descriptors with one or two bad options.
\<close>

definition example_secret :: VaultResource where
  "example_secret = defaultVaultResource
     \<lparr>resource := ''secret'', name := ''db-pass'',
      options := [''fmt'' \<mapsto> ''json'', ''up'' \<mapsto> ''2h'']\<rparr>"

definition bad_format :: VaultResource where
  "bad_format = defaultVaultResource
     \<lparr>resource := ''secret'', name := ''db-pass'',
      options := [''fmt'' \<mapsto> ''xml'', ''up'' \<mapsto> ''2h'']\<rparr>"

definition bad_update :: VaultResource where
  "bad_update = defaultVaultResource
     \<lparr>resource := ''secret'', name := ''db-pass'',
      options := [''fmt'' \<mapsto> ''json'', ''up'' \<mapsto> ''abc'']\<rparr>"

definition bad_format_and_update :: VaultResource where
  "bad_format_and_update = defaultVaultResource
     \<lparr>resource := ''secret'', name := ''db-pass'',
      options := [''fmt'' \<mapsto> ''xml'', ''up'' \<mapsto> ''abc'']\<rparr>"

definition bad_format_and_renewal :: VaultResource where
  "bad_format_and_renewal = defaultVaultResource
     \<lparr>resource := ''secret'', name := ''db-pass'',
      options := [''fmt'' \<mapsto> ''xml'', ''rn'' \<mapsto> ''maybe'']\<rparr>"

definition renewed_and_revoked :: VaultResource where
  "renewed_and_revoked = defaultVaultResource
     \<lparr>resource := ''aws'', name := ''deploy'',
      options := [''rn'' \<mapsto> ''true'', ''rv'' \<mapsto> ''T'', ''up'' \<mapsto> ''45s'']\<rparr>"

definition bad_revoke :: VaultResource where
  "bad_revoke = defaultVaultResource
     \<lparr>resource := ''aws'', name := ''deploy'',
      options := [''rn'' \<mapsto> ''true'', ''rv'' \<mapsto> ''yes'']\<rparr>"

definition template_present :: VaultResource where
  "template_present = defaultVaultResource
     \<lparr>resource := ''tpl'', name := ''motd'',
      options := [''tpl'' \<mapsto> ''/etc/motd'', ''up'' \<mapsto> ''1h'']\<rparr>"

definition template_missing :: VaultResource where
  "template_missing = defaultVaultResource
     \<lparr>resource := ''tpl'', name := ''motd'',
      options := [''tpl'' \<mapsto> ''/etc/missing'', ''up'' \<mapsto> ''1h'']\<rparr>"

definition template_missing_and_bad_update :: VaultResource where
  "template_missing_and_bad_update = defaultVaultResource
     \<lparr>resource := ''tpl'', name := ''motd'',
      options := [''tpl'' \<mapsto> ''/etc/missing'', ''up'' \<mapsto> ''abc'']\<rparr>"

definition template_missing_and_bad_format :: VaultResource where
  "template_missing_and_bad_format = defaultVaultResource
     \<lparr>resource := ''secret'', name := ''db-pass'',
      options := [''fmt'' \<mapsto> ''xml'', ''tpl'' \<mapsto> ''/etc/missing'']\<rparr>"

definition unsupported_with_bad_format :: VaultResource where
  "unsupported_with_bad_format = defaultVaultResource
     \<lparr>resource := ''ldap'', name := ''web'', options := [''fmt'' \<mapsto> ''xml'']\<rparr>"

section \<open>Properties\<close>

subsection \<open>The lookup tables\<close>

lemmas option_keys =
  OptionFilename_def OptionFormat_def OptionCommonName_def OptionTemplatePath_def
  OptionRenewal_def OptionRevoke_def OptionUpdate_def

text \<open>The equations that evaluate a run of the validator.\<close>

lemmas run =
  IsValid_def validResources_def isValidOption_def option_keys example_env_def
  resourceFormatRegex_MatchString_def index_def isValidResource_def strconv_ParseBool_def
  String_def entry_error_def range_order_def

lemma error_text_examples:
  "error_text (UnsupportedResourceType ''ldap'') = ''unsupported resource type: ldap''"
  "error_text (InvalidResourceOptions (InvalidFormat ''xml'')) =
     ''invalid resource options, unsupported output format: xml''"
  "error_text (InvalidResource (String (defaultVaultResource\<lparr>resource := ''pki'', name := ''web''\<rparr>))
       (MissingRequiredOption ''pki'' OptionCommonName)) =
     ''invalid resource: pki/web, pki resource requires a common name specified''"
  by (simp_all add: String_def)

lemma validResources_None_iff:
  "validResources s = None \<longleftrightarrow>
     s \<notin> {''pki'', ''aws'', ''secret'', ''mysql'', ''tpl'', ''postgres'', ''cassandra''}"
  by (simp add: validResources_def)

subsection \<open>One visit of the loop\<close>

lemma isValidOption_fmt:
  "isValidOption e OptionFormat val r =
     (if \<not> resourceFormatRegex_MatchString (index (options r) OptionFormat)
      then (Some (InvalidFormat (index (options r) OptionFormat)), r)
      else (None, r\<lparr>format := val\<rparr>))"
  by (simp add: isValidOption_def)

lemma isValidOption_up:
  "isValidOption e OptionUpdate val r =
     (case ParseDuration e val of
        None \<Rightarrow> (Some (InvalidDuration val), r)
      | Some duration \<Rightarrow> (None, r\<lparr>update := duration\<rparr>))"
  by (simp add: isValidOption_def option_keys)

lemma isValidOption_rv:
  "isValidOption e OptionRevoke val r =
     (case ParseBool e val of
        None \<Rightarrow> (Some (InvalidBoolean OptionRevoke val), r)
      | Some choice \<Rightarrow> (None, r\<lparr>revoked := choice\<rparr>))"
  by (simp add: isValidOption_def option_keys)

lemma isValidOption_rn:
  "isValidOption e OptionRenewal val r =
     (case ParseBool e val of
        None \<Rightarrow> (Some (InvalidBoolean OptionRenewal val), r)
      | Some choice \<Rightarrow> (None, r\<lparr>renewable := choice\<rparr>))"
  by (simp add: isValidOption_def option_keys)

lemma isValidOption_tpl:
  "isValidOption e OptionTemplatePath val r =
     (if \<not> fileExists e val then (Some (TemplateNotFound val), r) else (None, r))"
  by (simp add: isValidOption_def option_keys)

lemma isValidOption_untyped:
  "opt \<notin> typed_keys \<Longrightarrow> isValidOption e opt val r = (None, r)"
  by (simp add: isValidOption_def typed_keys_def)

lemma option_key_cases [case_names fmt up rv rn tpl untyped]:
  obtains "opt = OptionFormat" | "opt = OptionUpdate" | "opt = OptionRevoke"
    | "opt = OptionRenewal" | "opt = OptionTemplatePath" | "opt \<notin> typed_keys"
  unfolding typed_keys_def by blast

lemmas isValidOption_key =
  isValidOption_fmt isValidOption_up isValidOption_rv isValidOption_rn isValidOption_tpl
  isValidOption_untyped

lemma isValidOption_frame:
  "options (snd (isValidOption e opt val r)) = options r \<and>
   resource (snd (isValidOption e opt val r)) = resource r \<and>
   name (snd (isValidOption e opt val r)) = name r"
  by (cases opt rule: option_key_cases) (simp_all add: isValidOption_key split: option.splits)

lemma isValidOption_error_keeps:
  "fst (isValidOption e opt val r) \<noteq> None \<Longrightarrow> snd (isValidOption e opt val r) = r"
  by (cases opt rule: option_key_cases)
     (simp_all add: isValidOption_key split: option.splits if_splits)

lemma isValidOption_error_options:
  "options r' = options r \<Longrightarrow> fst (isValidOption e opt val r') = fst (isValidOption e opt val r)"
  by (cases opt rule: option_key_cases) (simp_all add: isValidOption_key split: option.splits)

lemma entry_error_options:
  "options r' = options r \<Longrightarrow> entry_error e r' k = entry_error e r k"
  using isValidOption_error_options [of r' r e k]
  by (simp add: entry_error_def split: option.splits)

lemma cached_unbound: "m key = None \<Longrightarrow> cached m K key p old = old"
  by (simp add: cached_def)

lemma cached_empty: "cached m {} key p old = old"
  by (simp add: cached_def split: option.splits)

lemma cached_insert_other:
  "key \<noteq> opt \<Longrightarrow> cached m (insert opt K) key p old = cached m K key p old"
  by (simp add: cached_def split: option.splits)

lemma cached_insert_unbound:
  "m opt = None \<Longrightarrow> cached m (insert opt K) key p old = cached m K key p old"
  by (cases "key = opt") (simp_all add: cached_def split: option.splits)

lemma cached_insert_same:
  "m key = Some v \<Longrightarrow> p v = Some x \<Longrightarrow> cached m (insert key K) key p old = x"
  by (simp add: cached_def)

lemma cached_same:
  "m key = Some v \<Longrightarrow> p v = Some x \<Longrightarrow> cached m K key p x = x"
  by (simp add: cached_def)

lemma settle_fields:
  "options (settle e K r) = options r"
  "resource (settle e K r) = resource r"
  "name (settle e K r) = name r"
  "format (settle e K r) = cached (options r) K OptionFormat Some (format r)"
  "update (settle e K r) = cached (options r) K OptionUpdate (ParseDuration e) (update r)"
  "revoked (settle e K r) = cached (options r) K OptionRevoke (ParseBool e) (revoked r)"
  "renewable (settle e K r) = cached (options r) K OptionRenewal (ParseBool e) (renewable r)"
  "VaultResource.more (settle e K r) = VaultResource.more r"
  by (simp_all add: settle_def)

lemma key_neq:
  "OptionFormat \<noteq> OptionUpdate" "OptionFormat \<noteq> OptionRevoke" "OptionFormat \<noteq> OptionRenewal"
  "OptionFormat \<noteq> OptionTemplatePath"
  "OptionUpdate \<noteq> OptionFormat" "OptionUpdate \<noteq> OptionRevoke" "OptionUpdate \<noteq> OptionRenewal"
  "OptionUpdate \<noteq> OptionTemplatePath"
  "OptionRevoke \<noteq> OptionFormat" "OptionRevoke \<noteq> OptionUpdate" "OptionRevoke \<noteq> OptionRenewal"
  "OptionRevoke \<noteq> OptionTemplatePath"
  "OptionRenewal \<noteq> OptionFormat" "OptionRenewal \<noteq> OptionUpdate" "OptionRenewal \<noteq> OptionRevoke"
  "OptionRenewal \<noteq> OptionTemplatePath"
  by (simp_all add: option_keys)

lemma untyped_neq:
  assumes "opt \<notin> typed_keys"
  shows "OptionFormat \<noteq> opt" "OptionUpdate \<noteq> opt" "OptionRevoke \<noteq> opt"
    "OptionRenewal \<noteq> opt" "OptionTemplatePath \<noteq> opt"
  using assms by (auto simp add: typed_keys_def)

lemma settle_empty: "settle e {} r = r"
  by (rule VaultResource.equality) (simp_all add: settle_fields cached_empty)

lemma settle_unbound:
  "options r opt = None \<Longrightarrow> settle e (insert opt K) r = settle e K r"
  by (rule VaultResource.equality)
     (simp_all add: settle_fields cached_insert_unbound)

lemma settle_step:
  assumes "options r opt = Some val" and "isValidOption e opt val r = (None, r1)"
  shows "settle e K r1 = settle e (insert opt K) r"
proof (cases opt rule: option_key_cases)
  case fmt
  with assms have r1: "r1 = r\<lparr>format := val\<rparr>"
    by (simp add: isValidOption_fmt split: if_splits)
  from fmt assms(1) show ?thesis unfolding r1
    by (intro VaultResource.equality)
       (simp_all add: settle_fields cached_insert_other key_neq cached_insert_same cached_same)
next
  case up
  with assms obtain d where "ParseDuration e val = Some d" and r1: "r1 = r\<lparr>update := d\<rparr>"
    by (auto simp add: isValidOption_up split: option.splits)
  with up assms(1) show ?thesis unfolding r1
    by (intro VaultResource.equality)
       (simp_all add: settle_fields cached_insert_other key_neq cached_insert_same cached_same)
next
  case rv
  with assms obtain c where "ParseBool e val = Some c" and r1: "r1 = r\<lparr>revoked := c\<rparr>"
    by (auto simp add: isValidOption_rv split: option.splits)
  with rv assms(1) show ?thesis unfolding r1
    by (intro VaultResource.equality)
       (simp_all add: settle_fields cached_insert_other key_neq cached_insert_same cached_same)
next
  case rn
  with assms obtain c where "ParseBool e val = Some c" and r1: "r1 = r\<lparr>renewable := c\<rparr>"
    by (auto simp add: isValidOption_rn split: option.splits)
  with rn assms(1) show ?thesis unfolding r1
    by (intro VaultResource.equality)
       (simp_all add: settle_fields cached_insert_other key_neq cached_insert_same cached_same)
next
  case tpl
  with assms have r1: "r1 = r" by (simp add: isValidOption_tpl split: if_splits)
  from tpl show ?thesis unfolding r1
    by (intro VaultResource.equality)
       (simp_all add: settle_fields cached_insert_other key_neq)
next
  case untyped
  with assms have r1: "r1 = r" by (simp add: isValidOption_untyped)
  from untyped_neq [OF untyped] show ?thesis unfolding r1
    by (intro VaultResource.equality)
       (simp_all add: settle_fields cached_insert_other)
qed

subsection \<open>The loop over the options\<close>

lemma isValidOptions_append:
  "isValidOptions e (xs @ ys) r =
     (case isValidOptions e xs r of
        (Some err, r') \<Rightarrow> (Some err, r')
      | (None, r') \<Rightarrow> isValidOptions e ys r')"
  by (induction xs arbitrary: r) (simp_all split: option.splits prod.splits)

lemma isValidOptions_ok:
  "\<forall>k\<in>set ks. entry_error e r k = None \<Longrightarrow>
   isValidOptions e ks r = (None, settle e (set ks) r)"
proof (induction ks arbitrary: r)
  case Nil
  show ?case by (simp add: settle_empty)
next
  case (Cons opt ks)
  show ?case
  proof (cases "options r opt")
    case None
    with Cons show ?thesis by (simp add: settle_unbound)
  next
    case (Some val)
    with Cons.prems have "fst (isValidOption e opt val r) = None"
      by (simp add: entry_error_def)
    then obtain r1 where st: "isValidOption e opt val r = (None, r1)"
      by (cases "isValidOption e opt val r") simp
    have "options r1 = options r"
      using isValidOption_frame [of e opt val r] st by simp
    then have "\<forall>k\<in>set ks. entry_error e r1 k = None"
      using Cons.prems by (simp add: entry_error_options [of r1 r])
    then have "isValidOptions e ks r1 = (None, settle e (set ks) r1)"
      by (rule Cons.IH)
    with Some st show ?thesis
      by (simp add: settle_step [OF Some st])
  qed
qed

lemma isValidOptions_fail_at:
  assumes "\<forall>j\<in>set pre. entry_error e r j = None" and "entry_error e r k = Some err"
  shows "isValidOptions e (pre @ k # post) r = (Some err, settle e (set pre) r)"
proof -
  let ?r1 = "settle e (set pre) r"
  have pre: "isValidOptions e pre r = (None, ?r1)"
    using assms(1) by (rule isValidOptions_ok)
  have "entry_error e ?r1 k = Some err"
    using assms(2) by (simp add: entry_error_options [of ?r1 r] settle_fields)
  then obtain val where val: "options ?r1 k = Some val"
    and err: "fst (isValidOption e k val ?r1) = Some err"
    by (auto simp add: entry_error_def split: option.splits)
  from err have "snd (isValidOption e k val ?r1) = ?r1"
    by (simp add: isValidOption_error_keeps)
  with err have "isValidOption e k val ?r1 = (Some err, ?r1)"
    by (metis prod.collapse)
  with pre val show ?thesis
    by (simp add: isValidOptions_append)
qed

lemma first_invalid:
  assumes "\<not> (\<forall>k\<in>set ks. entry_error e r k = None)"
  obtains pre k post err where "ks = pre @ k # post"
    and "\<forall>j\<in>set pre. entry_error e r j = None" and "entry_error e r k = Some err"
proof -
  from assms have "\<exists>k\<in>set ks. entry_error e r k \<noteq> None" by blast
  from split_list_first_prop [OF this]
  obtain pre k post where ks: "ks = pre @ k # post" and k: "entry_error e r k \<noteq> None"
    and pre: "\<forall>j\<in>set pre. \<not> entry_error e r j \<noteq> None"
    by blast
  from k obtain err where "entry_error e r k = Some err" by blast
  moreover from pre have "\<forall>j\<in>set pre. entry_error e r j = None" by simp
  ultimately show ?thesis using ks that by blast
qed

lemma isValidOptions_succeeds_iff:
  "fst (isValidOptions e ks r) = None \<longleftrightarrow> (\<forall>k\<in>set ks. entry_error e r k = None)"
proof
  assume ok: "fst (isValidOptions e ks r) = None"
  show "\<forall>k\<in>set ks. entry_error e r k = None"
  proof (rule ccontr)
    assume "\<not> ?thesis"
    then obtain pre k post err where "ks = pre @ k # post"
      "\<forall>j\<in>set pre. entry_error e r j = None" "entry_error e r k = Some err"
      by (rule first_invalid)
    then have "fst (isValidOptions e ks r) = Some err"
      by (simp add: isValidOptions_fail_at)
    with ok show False by simp
  qed
next
  assume "\<forall>k\<in>set ks. entry_error e r k = None"
  then show "fst (isValidOptions e ks r) = None" by (simp add: isValidOptions_ok)
qed

lemma isValidOptions_error_source:
  assumes "fst (isValidOptions e ks r) = Some err"
  shows "\<exists>k\<in>set ks. entry_error e r k = Some err"
proof -
  from assms have "\<not> (\<forall>k\<in>set ks. entry_error e r k = None)"
    by (simp add: isValidOptions_succeeds_iff [symmetric])
  then obtain pre k post err' where ks: "ks = pre @ k # post"
    and "\<forall>j\<in>set pre. entry_error e r j = None" "entry_error e r k = Some err'"
    by (rule first_invalid)
  then have "fst (isValidOptions e ks r) = Some err'" by (simp add: isValidOptions_fail_at)
  with assms \<open>entry_error e r k = Some err'\<close> ks show ?thesis by auto
qed

lemma isValidOptions_state:
  "\<exists>K. K \<subseteq> set ks \<and> snd (isValidOptions e ks r) = settle e K r"
proof (cases "\<forall>k\<in>set ks. entry_error e r k = None")
  case True
  then have "snd (isValidOptions e ks r) = settle e (set ks) r" by (simp add: isValidOptions_ok)
  then show ?thesis by blast
next
  case False
  then obtain pre k post err where ks: "ks = pre @ k # post"
    and "\<forall>j\<in>set pre. entry_error e r j = None" "entry_error e r k = Some err"
    by (rule first_invalid)
  then have "snd (isValidOptions e ks r) = settle e (set pre) r"
    by (simp add: isValidOptions_fail_at)
  moreover have "set pre \<subseteq> set ks" using ks by auto
  ultimately show ?thesis by blast
qed

lemma isValidOptions_frame:
  "options (snd (isValidOptions e ks r)) = options r \<and>
   resource (snd (isValidOptions e ks r)) = resource r \<and>
   name (snd (isValidOptions e ks r)) = name r"
  using isValidOptions_state [of ks e r] by (auto simp add: settle_fields)

subsection \<open>The three checks in sequence\<close>

lemma cached_bound:
  "m key = Some v \<Longrightarrow> key \<in> K \<Longrightarrow> p v = Some x \<Longrightarrow> cached m K key p old = x"
  by (simp add: cached_def)

lemma cached_cached:
  "cached m K' key p (cached m K key p old) = cached m (K' \<union> K) key p old"
  by (simp add: cached_def split: option.splits)

lemma cached_choice:
  "cached m K key p old = old \<or> (\<exists>v. m key = Some v \<and> p v = Some (cached m K key p old))"
  by (simp add: cached_def split: option.splits)

lemma settle_settle: "settle e K' (settle e K r) = settle e (K' \<union> K) r"
  by (rule VaultResource.equality) (simp_all add: settle_fields cached_cached)

lemma isValidResource_frame:
  "options r' = options r \<Longrightarrow> resource r' = resource r \<Longrightarrow> isValidResource r' = isValidResource r"
  by (simp add: isValidResource_def)

lemma String_frame: "resource r' = resource r \<Longrightarrow> name r' = name r \<Longrightarrow> String r' = String r"
  by (simp add: String_def)

lemma IsValid_unsupported:
  "validResources (resource r) = None \<Longrightarrow>
   IsValid e ks r = (Some (UnsupportedResourceType (resource r)), r)"
  by (simp add: IsValid_def)

lemma IsValid_snd:
  "validResources (resource r) \<noteq> None \<Longrightarrow> snd (IsValid e ks r) = snd (isValidOptions e ks r)"
  by (auto simp add: IsValid_def split: option.splits prod.splits)

lemma IsValid_fst:
  assumes "validResources (resource r) \<noteq> None"
  shows "fst (IsValid e ks r) =
     (case fst (isValidOptions e ks r) of
        Some err \<Rightarrow> Some (InvalidResourceOptions err)
      | None \<Rightarrow>
          (case isValidResource r of
             Some err \<Rightarrow> Some (InvalidResource (String r) err)
           | None \<Rightarrow> None))"
proof -
  obtain x r' where run: "isValidOptions e ks r = (x, r')" by (cases "isValidOptions e ks r")
  with isValidOptions_frame [of e ks r]
  have "options r' = options r" "resource r' = resource r" "name r' = name r" by simp_all
  then have "isValidResource r' = isValidResource r" "String r' = String r"
    by (simp_all add: isValidResource_frame [of r' r] String_frame [of r' r])
  with assms run show ?thesis
    by (simp add: IsValid_def split: option.splits)
qed

lemma IsValid_frame:
  "options (snd (IsValid e ks r)) = options r \<and> resource (snd (IsValid e ks r)) = resource r \<and>
   name (snd (IsValid e ks r)) = name r"
proof (cases "validResources (resource r) = None")
  case True
  then show ?thesis by (simp add: IsValid_unsupported)
next
  case False
  then show ?thesis using isValidOptions_frame [of e ks r] by (simp add: IsValid_snd)
qed

lemma entry_error_fmt:
  "entry_error e r OptionFormat =
     (case options r OptionFormat of
        None \<Rightarrow> None
      | Some v \<Rightarrow> if resourceFormatRegex_MatchString v then None else Some (InvalidFormat v))"
  by (simp add: entry_error_def isValidOption_fmt index_def split: option.splits)

lemma entry_error_up:
  "entry_error e r OptionUpdate =
     (case options r OptionUpdate of
        None \<Rightarrow> None
      | Some v \<Rightarrow> (case ParseDuration e v of None \<Rightarrow> Some (InvalidDuration v) | Some d \<Rightarrow> None))"
  by (simp add: entry_error_def isValidOption_up split: option.splits)

lemma entry_error_rv:
  "entry_error e r OptionRevoke =
     (case options r OptionRevoke of
        None \<Rightarrow> None
      | Some v \<Rightarrow>
          (case ParseBool e v of None \<Rightarrow> Some (InvalidBoolean OptionRevoke v) | Some c \<Rightarrow> None))"
  by (simp add: entry_error_def isValidOption_rv split: option.splits)

lemma entry_error_rn:
  "entry_error e r OptionRenewal =
     (case options r OptionRenewal of
        None \<Rightarrow> None
      | Some v \<Rightarrow>
          (case ParseBool e v of None \<Rightarrow> Some (InvalidBoolean OptionRenewal v) | Some c \<Rightarrow> None))"
  by (simp add: entry_error_def isValidOption_rn split: option.splits)

lemma entry_error_tpl:
  "entry_error e r OptionTemplatePath =
     (case options r OptionTemplatePath of
        None \<Rightarrow> None
      | Some v \<Rightarrow> if fileExists e v then None else Some (TemplateNotFound v))"
  by (simp add: entry_error_def isValidOption_tpl split: option.splits)

lemma entry_error_untyped: "opt \<notin> typed_keys \<Longrightarrow> entry_error e r opt = None"
  by (simp add: entry_error_def isValidOption_untyped split: option.splits)

lemmas entry_error_key =
  entry_error_fmt entry_error_up entry_error_rv entry_error_rn entry_error_tpl entry_error_untyped

lemma entry_error_at:
  "options r' k = options r k \<Longrightarrow> entry_error e r' k = entry_error e r k"
  by (cases k rule: option_key_cases) (simp_all add: entry_error_key)

lemma isValidOptions_fst_cong:
  assumes "\<forall>k\<in>set ks. entry_error e r' k = entry_error e r k"
  shows "fst (isValidOptions e ks r') = fst (isValidOptions e ks r)"
proof (cases "\<forall>k\<in>set ks. entry_error e r k = None")
  case True
  with assms have "\<forall>k\<in>set ks. entry_error e r' k = None" by simp
  with True show ?thesis by (simp add: isValidOptions_ok)
next
  case False
  then obtain pre k post err where ks: "ks = pre @ k # post"
    and pre: "\<forall>j\<in>set pre. entry_error e r j = None" and k: "entry_error e r k = Some err"
    by (rule first_invalid)
  from assms ks pre k have "\<forall>j\<in>set pre. entry_error e r' j = None" "entry_error e r' k = Some err"
    by simp_all
  with pre k show ?thesis unfolding ks by (simp add: isValidOptions_fail_at)
qed

lemma isValidOptions_reached:
  assumes "\<forall>j\<in>set pre. entry_error e r j = None" and "entry_error e r k = None"
  shows "\<exists>K. k \<in> K \<and> snd (isValidOptions e (pre @ k # post) r) = settle e K r"
proof -
  let ?r2 = "settle e (set (pre @ [k])) r"
  from assms have "\<forall>j\<in>set (pre @ [k]). entry_error e r j = None" by simp
  then have "isValidOptions e (pre @ [k]) r = (None, ?r2)" by (rule isValidOptions_ok)
  then have "isValidOptions e (pre @ k # post) r = isValidOptions e post ?r2"
    using isValidOptions_append [of e "pre @ [k]" post r] by simp
  moreover obtain K where "snd (isValidOptions e post ?r2) = settle e K ?r2"
    using isValidOptions_state [of post e ?r2] by blast
  ultimately have "snd (isValidOptions e (pre @ k # post) r) = settle e (K \<union> set (pre @ [k])) r"
    by (simp add: settle_settle)
  moreover have "k \<in> K \<union> set (pre @ [k])" by simp
  ultimately show ?thesis by blast
qed

subsection \<open>Resource types and file names\<close>

text \<open>
  C1. A descriptor whose resource type is none of pki, aws, secret, mysql, tpl, postgres,
  cassandra is rejected with \<open>UnsupportedResourceType\<close> carrying that type, whatever its
  name, its options and the order in which they would be visited, and it is left as it
  was; a descriptor whose resource type is one of the seven is never rejected with
  \<open>UnsupportedResourceType\<close>.
\<close>

theorem unsupported_resource_type:
  "(resource r \<notin> {''pki'', ''aws'', ''secret'', ''mysql'', ''tpl'', ''postgres'', ''cassandra''}
      \<longrightarrow> IsValid e ks r = (Some (UnsupportedResourceType (resource r)), r)) \<and>
   (resource r \<in> {''pki'', ''aws'', ''secret'', ''mysql'', ''tpl'', ''postgres'', ''cassandra''}
      \<longrightarrow> (\<forall>v. fst (IsValid e ks r) \<noteq> Some (UnsupportedResourceType v)))"
proof (intro conjI impI allI)
  assume "resource r \<notin> {''pki'', ''aws'', ''secret'', ''mysql'', ''tpl'', ''postgres'', ''cassandra''}"
  then have "validResources (resource r) = None" by (simp add: validResources_None_iff)
  then show "IsValid e ks r = (Some (UnsupportedResourceType (resource r)), r)"
    by (rule IsValid_unsupported)
next
  fix v
  assume "resource r \<in> {''pki'', ''aws'', ''secret'', ''mysql'', ''tpl'', ''postgres'', ''cassandra''}"
  then have "validResources (resource r) \<noteq> None" by (simp add: validResources_None_iff)
  then show "fst (IsValid e ks r) \<noteq> Some (UnsupportedResourceType v)"
    by (simp add: IsValid_fst split: option.splits)
qed

theorem unsupported_resource_type_witness:
  "IsValid example_env [''cn'', ''fmt'']
     (defaultVaultResource\<lparr>resource := ''ldap'', name := ''web'',
        options := [''fmt'' \<mapsto> ''xml'', ''cn'' \<mapsto> ''example.com'']\<rparr>) =
     (Some (UnsupportedResourceType ''ldap''),
      defaultVaultResource\<lparr>resource := ''ldap'', name := ''web'',
        options := [''fmt'' \<mapsto> ''xml'', ''cn'' \<mapsto> ''example.com'']\<rparr>) \<and>
   fst (IsValid example_env [] (defaultVaultResource\<lparr>resource := ''aws'', name := ''web''\<rparr>))
     \<noteq> Some (UnsupportedResourceType ''aws'')"
  using
    unsupported_resource_type [of "defaultVaultResource\<lparr>resource := ''ldap'', name := ''web'',
        options := [''fmt'' \<mapsto> ''xml'', ''cn'' \<mapsto> ''example.com'']\<rparr>" example_env "[''cn'', ''fmt'']"]
    unsupported_resource_type [of "defaultVaultResource\<lparr>resource := ''aws'', name := ''web''\<rparr>"
      example_env "[]"]
  by simp

text \<open>
  C6. \<open>GetFilename\<close> is a total function of the descriptor alone. When the options bind
  \<open>fn\<close> it returns the bound value unchanged, the empty string and values with path
  separators included; when they do not it returns the name, a dot and the resource
  type. Validation, whatever its verdict, does not change what it returns.
\<close>

theorem GetFilename_override:
  "(\<forall>p. options r ''fn'' = Some p \<longrightarrow> GetFilename r = p) \<and>
   (options r ''fn'' = None \<longrightarrow> GetFilename r = name r @ ''.'' @ resource r) \<and>
   GetFilename (snd (IsValid e ks r)) = GetFilename r"
  using IsValid_frame [of e ks r] by (simp add: GetFilename_def OptionFilename_def split: option.splits)

theorem GetFilename_override_witness:
  "GetFilename (defaultVaultResource\<lparr>resource := ''ldap'', name := ''web'',
      options := [''fn'' \<mapsto> '''']\<rparr>) = '''' \<and>
   GetFilename (defaultVaultResource\<lparr>resource := ''secret'', name := ''db-pass'',
      options := [''fn'' \<mapsto> ''../etc/a/b'']\<rparr>) = ''../etc/a/b'' \<and>
   GetFilename (defaultVaultResource\<lparr>resource := ''secret'', name := ''db-pass'',
      options := [''fmt'' \<mapsto> ''json'', ''up'' \<mapsto> ''2h'']\<rparr>) = ''db-pass.secret''"
  using
    GetFilename_override [of "defaultVaultResource\<lparr>resource := ''ldap'', name := ''web'',
      options := [''fn'' \<mapsto> '''']\<rparr>"]
    GetFilename_override [of "defaultVaultResource\<lparr>resource := ''secret'', name := ''db-pass'',
      options := [''fn'' \<mapsto> ''../etc/a/b'']\<rparr>"]
    GetFilename_override [of "defaultVaultResource\<lparr>resource := ''secret'', name := ''db-pass'',
      options := [''fmt'' \<mapsto> ''json'', ''up'' \<mapsto> ''2h'']\<rparr>"]
  by (simp add: defaultVaultResource_def)

subsection \<open>Required options\<close>

lemma validResources_supported:
  "validResources ''pki'' \<noteq> None" "validResources ''aws'' \<noteq> None"
  "validResources ''secret'' \<noteq> None" "validResources ''mysql'' \<noteq> None"
  "validResources ''tpl'' \<noteq> None" "validResources ''postgres'' \<noteq> None"
  "validResources ''cassandra'' \<noteq> None"
  by (simp_all add: validResources_def)

lemma isValidOptions_snd_visited:
  "snd (isValidOptions e ks r) =
     settle e (set (takeWhile (\<lambda>k. entry_error e r k = None) ks)) r"
proof (cases "\<forall>k\<in>set ks. entry_error e r k = None")
  case True
  then have tw: "takeWhile (\<lambda>k. entry_error e r k = None) ks = ks" by simp
  from True show ?thesis unfolding tw by (simp add: isValidOptions_ok)
next
  case False
  then obtain pre k post err where ks: "ks = pre @ k # post"
    and pre: "\<forall>j\<in>set pre. entry_error e r j = None" and k: "entry_error e r k = Some err"
    by (rule first_invalid)
  from pre k have "takeWhile (\<lambda>k. entry_error e r k = None) (pre @ k # post) = pre"
    by (simp add: takeWhile_tail)
  with pre k show ?thesis unfolding ks by (simp add: isValidOptions_fail_at)
qed

lemma settle_idem: "settle e K (settle e K r) = settle e K r"
  by (simp add: settle_settle)

text \<open>
  C4. Once the resource type is supported and the loop over the options has returned
  without error, a pki descriptor is rejected with \<open>MissingRequiredOption\<close> exactly when
  its options do not bind \<open>cn\<close>, a tpl descriptor exactly when they do not bind \<open>tpl\<close>,
  and both are accepted otherwise; a descriptor of any other supported type is accepted.
\<close>

theorem required_options:
  assumes "validResources (resource r) \<noteq> None" and "fst (isValidOptions e ks r) = None"
  shows
    "(resource r = ''pki'' \<longrightarrow>
        (fst (IsValid e ks r) =
           Some (InvalidResource (String r) (MissingRequiredOption ''pki'' ''cn''))
         \<longleftrightarrow> options r ''cn'' = None) \<and>
        (fst (IsValid e ks r) = None \<longleftrightarrow> options r ''cn'' \<noteq> None)) \<and>
     (resource r = ''tpl'' \<longrightarrow>
        (fst (IsValid e ks r) =
           Some (InvalidResource (String r) (MissingRequiredOption ''tpl'' ''tpl''))
         \<longleftrightarrow> options r ''tpl'' = None) \<and>
        (fst (IsValid e ks r) = None \<longleftrightarrow> options r ''tpl'' \<noteq> None)) \<and>
     (resource r \<noteq> ''pki'' \<and> resource r \<noteq> ''tpl'' \<longrightarrow> fst (IsValid e ks r) = None)"
proof -
  have verdict: "fst (IsValid e ks r) =
      (case isValidResource r of
         Some err \<Rightarrow> Some (InvalidResource (String r) err)
       | None \<Rightarrow> None)"
    using assms by (simp add: IsValid_fst)
  show ?thesis unfolding verdict
    by (auto simp add: isValidResource_def OptionCommonName_def OptionTemplatePath_def)
qed

theorem required_options_witness:
  "fst (IsValid example_env []
      (defaultVaultResource\<lparr>resource := ''pki'', name := ''web''\<rparr>)) =
     Some (InvalidResource ''pki/web'' (MissingRequiredOption ''pki'' ''cn'')) \<and>
   fst (IsValid example_env [''cn'']
      (defaultVaultResource\<lparr>resource := ''pki'', name := ''web'',
         options := [''cn'' \<mapsto> ''example.com'']\<rparr>)) = None \<and>
   fst (IsValid example_env []
      (defaultVaultResource\<lparr>resource := ''tpl'', name := ''motd''\<rparr>)) =
     Some (InvalidResource ''tpl/motd'' (MissingRequiredOption ''tpl'' ''tpl'')) \<and>
   fst (IsValid example_env [''up'', ''tpl''] template_present) = None \<and>
   fst (IsValid example_env [''fmt'', ''up''] example_secret) = None"
proof -
  let ?r0 = "defaultVaultResource\<lparr>resource := ''pki'', name := ''web''\<rparr>"
  let ?r1 = "defaultVaultResource\<lparr>resource := ''pki'', name := ''web'',
         options := [''cn'' \<mapsto> ''example.com'']\<rparr>"
  let ?r2 = "defaultVaultResource\<lparr>resource := ''tpl'', name := ''motd''\<rparr>"
  have s0: "validResources (resource ?r0) \<noteq> None" and s1: "validResources (resource ?r1) \<noteq> None"
    and s2: "validResources (resource ?r2) \<noteq> None"
    and s3: "validResources (resource template_present) \<noteq> None"
    and s4: "validResources (resource example_secret) \<noteq> None"
    by (simp_all add: validResources_supported example_secret_def template_present_def defaultVaultResource_def)
  have o0: "fst (isValidOptions example_env [] ?r0) = None" by simp
  have o1: "fst (isValidOptions example_env [''cn''] ?r1) = None"
    by (simp add: isValidOption_def option_keys)
  have o2: "fst (isValidOptions example_env [] ?r2) = None" by simp
  have o3: "fst (isValidOptions example_env [''up'', ''tpl''] template_present) = None"
    by (simp add: example_secret_def template_present_def defaultVaultResource_def run)
  have o4: "fst (isValidOptions example_env [''fmt'', ''up''] example_secret) = None"
    by (simp add: example_secret_def template_present_def defaultVaultResource_def run)
  from required_options [OF s0 o0] required_options [OF s1 o1] required_options [OF s2 o2]
    required_options [OF s3 o3] required_options [OF s4 o4]
  show ?thesis
    by (simp add: String_def example_secret_def template_present_def defaultVaultResource_def)
qed

subsection \<open>Idempotence\<close>

text \<open>
  C7. Validation is idempotent. If a call succeeds on a descriptor, a second call on
  the descriptor it left behind, with the same parsers and filesystem and in whatever
  order either loop visits the options, succeeds as well and leaves the descriptor,
  hence each of format, renewable, revoked and update, as the first call left it.
\<close>

theorem IsValid_idempotent:
  assumes "range_order (options r) ks1" and "range_order (options r) ks2"
    and "IsValid e ks1 r = (None, r')"
  shows "IsValid e ks2 r' = (None, r')"
proof -
  from assms(3) have sup: "validResources (resource r) \<noteq> None"
    by (auto simp add: IsValid_def split: if_splits)
  from assms(3) have verdict: "fst (IsValid e ks1 r) = None" and state: "snd (IsValid e ks1 r) = r'"
    by simp_all
  from verdict sup have ok1: "fst (isValidOptions e ks1 r) = None" and res: "isValidResource r = None"
    by (simp_all add: IsValid_fst split: option.splits)
  from ok1 have all1: "\<forall>k\<in>set ks1. entry_error e r k = None"
    by (simp add: isValidOptions_succeeds_iff)
  from state sup all1 have r': "r' = settle e (set ks1) r"
    by (simp add: IsValid_snd isValidOptions_ok)
  have same: "set ks2 = set ks1" using assms(1,2) by (simp add: range_order_def)
  have fr: "options r' = options r" "resource r' = resource r" "name r' = name r"
    by (simp_all add: r' settle_fields)
  from all1 same have all2: "\<forall>k\<in>set ks2. entry_error e r' k = None"
    by (simp add: entry_error_options [OF fr(1)])
  then have "isValidOptions e ks2 r' = (None, settle e (set ks2) r')" by (rule isValidOptions_ok)
  also have "settle e (set ks2) r' = r'" by (simp add: same r' settle_idem)
  finally have run2: "isValidOptions e ks2 r' = (None, r')" .
  have "isValidResource r' = None"
    using res by (simp add: isValidResource_frame [OF fr(1,2)])
  with run2 sup fr(2) show ?thesis by (simp add: IsValid_def)
qed

theorem IsValid_idempotent_witness:
  "IsValid example_env [''up'', ''fmt'']
     (defaultVaultResource\<lparr>resource := ''secret'', name := ''db-pass'',
        options := [''fmt'' \<mapsto> ''json'', ''up'' \<mapsto> ''2h'']\<rparr>) =
     (None, defaultVaultResource\<lparr>resource := ''secret'', name := ''db-pass'', format := ''json'',
        update := 7200000000000, options := [''fmt'' \<mapsto> ''json'', ''up'' \<mapsto> ''2h'']\<rparr>) \<and>
   IsValid example_env [''fmt'', ''up'']
     (defaultVaultResource\<lparr>resource := ''secret'', name := ''db-pass'', format := ''json'',
        update := 7200000000000, options := [''fmt'' \<mapsto> ''json'', ''up'' \<mapsto> ''2h'']\<rparr>) =
     (None, defaultVaultResource\<lparr>resource := ''secret'', name := ''db-pass'', format := ''json'',
        update := 7200000000000, options := [''fmt'' \<mapsto> ''json'', ''up'' \<mapsto> ''2h'']\<rparr>)"
proof -
  let ?r = "defaultVaultResource\<lparr>resource := ''secret'', name := ''db-pass'',
        options := [''fmt'' \<mapsto> ''json'', ''up'' \<mapsto> ''2h'']\<rparr>"
  let ?r' = "defaultVaultResource\<lparr>resource := ''secret'', name := ''db-pass'', format := ''json'',
        update := 7200000000000, options := [''fmt'' \<mapsto> ''json'', ''up'' \<mapsto> ''2h'']\<rparr>"
  have o1: "range_order (options ?r) [''up'', ''fmt'']"
    and o2: "range_order (options ?r) [''fmt'', ''up'']"
    by (auto simp add: range_order_def)
  have first: "IsValid example_env [''up'', ''fmt''] ?r = (None, ?r')"
    by (simp add: IsValid_def validResources_def isValidOption_def option_keys example_env_def
        resourceFormatRegex_MatchString_def index_def isValidResource_def defaultVaultResource_def)
  from first IsValid_idempotent [OF o1 o2 first] show ?thesis by simp
qed

subsection \<open>The common name of a pki descriptor\<close>

lemma cn_untyped: "''cn'' \<notin> typed_keys"
  by (simp add: typed_keys_def option_keys)

lemma rebind_cn_entry_error:
  "entry_error e (r\<lparr>options := (options r)(''cn'' \<mapsto> v)\<rparr>) k =
   entry_error e (r\<lparr>options := (options r)(''cn'' \<mapsto> w)\<rparr>) k"
proof (cases "k = ''cn''")
  case True
  then show ?thesis by (simp add: entry_error_untyped cn_untyped)
next
  case False
  then show ?thesis by (intro entry_error_at) simp
qed

text \<open>
  C10. A pki descriptor whose options bind \<open>cn\<close> to the empty string is accepted when
  every other entry of its options is valid. Neither the loop nor the required-option
  check reads the value bound to \<open>cn\<close>: for any descriptor and any order, binding \<open>cn\<close>
  to the empty string or to any other string gives the same verdict and the same four
  cached fields.
\<close>

theorem pki_empty_common_name:
  "(resource r = ''pki'' \<and> options r ''cn'' = Some '''' \<and>
      (\<forall>k\<in>set ks. k \<noteq> ''cn'' \<longrightarrow> entry_error e r k = None)
      \<longrightarrow> fst (IsValid e ks r) = None) \<and>
   fst (IsValid e ks (r\<lparr>options := (options r)(''cn'' \<mapsto> v)\<rparr>)) =
     fst (IsValid e ks (r\<lparr>options := (options r)(''cn'' \<mapsto> '''')\<rparr>)) \<and>
   format (snd (IsValid e ks (r\<lparr>options := (options r)(''cn'' \<mapsto> v)\<rparr>))) =
     format (snd (IsValid e ks (r\<lparr>options := (options r)(''cn'' \<mapsto> '''')\<rparr>))) \<and>
   update (snd (IsValid e ks (r\<lparr>options := (options r)(''cn'' \<mapsto> v)\<rparr>))) =
     update (snd (IsValid e ks (r\<lparr>options := (options r)(''cn'' \<mapsto> '''')\<rparr>))) \<and>
   revoked (snd (IsValid e ks (r\<lparr>options := (options r)(''cn'' \<mapsto> v)\<rparr>))) =
     revoked (snd (IsValid e ks (r\<lparr>options := (options r)(''cn'' \<mapsto> '''')\<rparr>))) \<and>
   renewable (snd (IsValid e ks (r\<lparr>options := (options r)(''cn'' \<mapsto> v)\<rparr>))) =
     renewable (snd (IsValid e ks (r\<lparr>options := (options r)(''cn'' \<mapsto> '''')\<rparr>)))"
proof -
  let ?rv = "r\<lparr>options := (options r)(''cn'' \<mapsto> v)\<rparr>"
  let ?r0 = "r\<lparr>options := (options r)(''cn'' \<mapsto> '''')\<rparr>"
  have accepted: "fst (IsValid e ks r) = None"
    if pki: "resource r = ''pki''" and cn: "options r ''cn'' = Some ''''"
      and others: "\<forall>k\<in>set ks. k \<noteq> ''cn'' \<longrightarrow> entry_error e r k = None"
  proof -
    have "entry_error e r ''cn'' = None" by (simp add: entry_error_untyped cn_untyped)
    with others have "\<forall>k\<in>set ks. entry_error e r k = None" by (metis (full_types))
    then have "fst (isValidOptions e ks r) = None" by (simp add: isValidOptions_succeeds_iff)
    moreover have "isValidResource r = None"
      using pki cn by (simp add: isValidResource_def OptionCommonName_def)
    moreover have "validResources (resource r) \<noteq> None"
      using pki by (simp add: validResources_supported)
    ultimately show ?thesis by (simp add: IsValid_fst)
  qed
  have errs: "entry_error e ?rv k = entry_error e ?r0 k" for k
    by (rule rebind_cn_entry_error)
  have run: "fst (isValidOptions e ks ?rv) = fst (isValidOptions e ks ?r0)"
    by (rule isValidOptions_fst_cong) (simp add: errs)
  have req: "isValidResource ?rv = isValidResource ?r0"
    by (simp add: isValidResource_def option_keys)
  have str: "String ?rv = String ?r0" by (simp add: String_def)
  have verdict: "fst (IsValid e ks ?rv) = fst (IsValid e ks ?r0)"
  proof (cases "validResources (resource r) = None")
    case True
    then show ?thesis by (simp add: IsValid_unsupported)
  next
    case False
    then have sup: "validResources (resource ?rv) \<noteq> None"
      "validResources (resource ?r0) \<noteq> None" by simp_all
    show ?thesis unfolding IsValid_fst [OF sup(1)] IsValid_fst [OF sup(2)] run req str
      by (rule refl)
  qed
  have visited: "(\<lambda>k. entry_error e ?rv k = None) = (\<lambda>k. entry_error e ?r0 k = None)"
    by (simp add: errs)
  have state: "snd (IsValid e ks ?rv) = (snd (IsValid e ks ?r0))\<lparr>options := options ?rv\<rparr>"
  proof (cases "validResources (resource r) = None")
    case True
    then show ?thesis by (simp add: IsValid_unsupported)
  next
    case False
    then have snds: "snd (IsValid e ks ?rv) = snd (isValidOptions e ks ?rv)"
      "snd (IsValid e ks ?r0) = snd (isValidOptions e ks ?r0)"
      by (simp_all add: IsValid_snd)
    show ?thesis unfolding snds isValidOptions_snd_visited visited
      by (rule VaultResource.equality) (simp_all add: settle_fields cached_def option_keys)
  qed
  have fields:
    "format (snd (IsValid e ks ?rv)) = format (snd (IsValid e ks ?r0))"
    "update (snd (IsValid e ks ?rv)) = update (snd (IsValid e ks ?r0))"
    "revoked (snd (IsValid e ks ?rv)) = revoked (snd (IsValid e ks ?r0))"
    "renewable (snd (IsValid e ks ?rv)) = renewable (snd (IsValid e ks ?r0))"
    unfolding state by simp_all
  show ?thesis
  proof (intro conjI impI)
    assume "resource r = ''pki'' \<and> options r ''cn'' = Some '''' \<and>
      (\<forall>k\<in>set ks. k \<noteq> ''cn'' \<longrightarrow> entry_error e r k = None)"
    then show "fst (IsValid e ks r) = None" by (intro accepted) simp_all
  qed (fact verdict fields)+
qed

theorem pki_empty_common_name_witness:
  "fst (IsValid example_env [''fmt'', ''cn'']
      (defaultVaultResource\<lparr>resource := ''pki'', name := ''web'',
         options := [''cn'' \<mapsto> '''', ''fmt'' \<mapsto> ''cert'']\<rparr>)) = None"
proof -
  let ?r = "defaultVaultResource\<lparr>resource := ''pki'', name := ''web'',
         options := [''cn'' \<mapsto> '''', ''fmt'' \<mapsto> ''cert'']\<rparr>"
  have "resource ?r = ''pki''" "options ?r ''cn'' = Some ''''" by simp_all
  moreover have "\<forall>k\<in>set [''fmt'', ''cn'']. k \<noteq> ''cn'' \<longrightarrow> entry_error example_env ?r k = None"
    using entry_error_fmt [of example_env ?r]
    by (simp add: OptionFormat_def resourceFormatRegex_MatchString_def)
  ultimately show ?thesis
    using pki_empty_common_name [of ?r "[''fmt'', ''cn'']" example_env] by (simp del: set_simps)
qed

subsection \<open>The format option\<close>

lemma IsValid_fails_if_invalid:
  assumes "validResources (resource r) \<noteq> None" and "k \<in> set ks" and "entry_error e r k \<noteq> None"
  shows "fst (IsValid e ks r) \<noteq> None"
proof -
  from assms(2,3) have "\<not> (\<forall>k\<in>set ks. entry_error e r k = None)" by auto
  then have "fst (isValidOptions e ks r) \<noteq> None" by (simp add: isValidOptions_succeeds_iff)
  with assms(1) show ?thesis by (auto simp add: IsValid_fst)
qed

lemma IsValid_first_invalid:
  assumes "validResources (resource r) \<noteq> None" and "ks = pre @ k # post"
    and "\<forall>j\<in>set pre. entry_error e r j = None" and "entry_error e r k = Some err"
  shows "fst (IsValid e ks r) = Some (InvalidResourceOptions err)"
  using assms by (simp add: IsValid_fst isValidOptions_fail_at)

lemma IsValid_reached:
  assumes "validResources (resource r) \<noteq> None" and "ks = pre @ k # post"
    and "\<forall>j\<in>set pre. entry_error e r j = None" and "entry_error e r k = None"
  shows "\<exists>K. k \<in> K \<and> snd (IsValid e ks r) = settle e K r"
  using assms isValidOptions_reached [of pre e r k post] by (simp add: IsValid_snd)

lemma IsValid_success_reaches:
  assumes "fst (IsValid e ks r) = None" and "k \<in> set ks"
  shows "validResources (resource r) \<noteq> None \<and> entry_error e r k = None \<and>
    (\<exists>pre post. ks = pre @ k # post \<and> (\<forall>j\<in>set pre. entry_error e r j = None))"
proof -
  from assms(1) have sup: "validResources (resource r) \<noteq> None"
    by (auto simp add: IsValid_def split: if_splits)
  with assms(1) have "fst (isValidOptions e ks r) = None"
    by (simp add: IsValid_fst split: option.splits)
  then have all: "\<forall>j\<in>set ks. entry_error e r j = None" by (simp add: isValidOptions_succeeds_iff)
  from assms(2) obtain pre post where ks: "ks = pre @ k # post" by (auto dest: split_list)
  with all have "\<forall>j\<in>set pre. entry_error e r j = None" by simp
  with sup all assms(2) ks show ?thesis by auto
qed

lemma IsValid_state: "\<exists>K. K \<subseteq> set ks \<and> snd (IsValid e ks r) = settle e K r"
proof (cases "validResources (resource r) = None")
  case True
  then have "snd (IsValid e ks r) = settle e {} r" by (simp add: IsValid_unsupported settle_empty)
  then show ?thesis by blast
next
  case False
  then show ?thesis using isValidOptions_state [of ks e r] by (simp add: IsValid_snd)
qed

lemma literal_keys:
  "''fmt'' = OptionFormat" "''up'' = OptionUpdate" "''rv'' = OptionRevoke" "''rn'' = OptionRenewal"
  "''tpl'' = OptionTemplatePath" "''cn'' = OptionCommonName" "''fn'' = OptionFilename"
  by (simp_all add: option_keys)

text \<open>
  C2 (as amended). Let the resource type be supported and the options bind \<open>fmt\<close> to
  \<open>v\<close>. If \<open>v\<close> is none of yaml, json, ini, txt, cert, csv, validation fails in every order
  that visits \<open>fmt\<close>, and it fails with \<open>InvalidFormat v\<close> when no entry visited before
  \<open>fmt\<close> is invalid. If \<open>v\<close> is one of the six and no entry visited before \<open>fmt\<close> is
  invalid, the format field holds \<open>v\<close> after the call; this is the case whenever
  validation succeeds. If the options do not bind \<open>fmt\<close>, the format field keeps its
  value, which is yaml for a descriptor created with the defaults.
\<close>

theorem format_option:
  "(validResources (resource r) \<noteq> None \<and> options r ''fmt'' = Some v \<and>
      \<not> resourceFormatRegex_MatchString v \<and> ''fmt'' \<in> set ks
      \<longrightarrow> fst (IsValid e ks r) \<noteq> None) \<and>
   (validResources (resource r) \<noteq> None \<and> options r ''fmt'' = Some v \<and>
      \<not> resourceFormatRegex_MatchString v \<and>
      ks = pre @ ''fmt'' # post \<and> (\<forall>j\<in>set pre. entry_error e r j = None)
      \<longrightarrow> fst (IsValid e ks r) = Some (InvalidResourceOptions (InvalidFormat v))) \<and>
   (validResources (resource r) \<noteq> None \<and> options r ''fmt'' = Some v \<and>
      resourceFormatRegex_MatchString v \<and>
      ks = pre @ ''fmt'' # post \<and> (\<forall>j\<in>set pre. entry_error e r j = None)
      \<longrightarrow> format (snd (IsValid e ks r)) = v) \<and>
   (options r ''fmt'' = Some v \<and> ''fmt'' \<in> set ks \<and> fst (IsValid e ks r) = None
      \<longrightarrow> resourceFormatRegex_MatchString v \<and> format (snd (IsValid e ks r)) = v) \<and>
   (options r ''fmt'' = None \<longrightarrow> format (snd (IsValid e ks r)) = format r) \<and>
   (options r ''fmt'' = None \<and> format r = format defaultVaultResource
      \<longrightarrow> format (snd (IsValid e ks r)) = ''yaml'')"
proof -
  have cached_v: "format (snd (IsValid e ks r)) = v"
    if sup: "validResources (resource r) \<noteq> None" and v: "options r OptionFormat = Some v"
      and ok: "resourceFormatRegex_MatchString v"
      and ks: "ks = pre @ OptionFormat # post" and pre: "\<forall>j\<in>set pre. entry_error e r j = None"
    for pre post
  proof -
    from v ok have "entry_error e r OptionFormat = None" by (simp add: entry_error_fmt)
    with sup ks pre obtain K where "OptionFormat \<in> K" "snd (IsValid e ks r) = settle e K r"
      using IsValid_reached [of r ks pre OptionFormat post e] by auto
    with v show ?thesis by (simp add: settle_fields cached_bound)
  qed
  have fails: "fst (IsValid e ks r) \<noteq> None"
    if "validResources (resource r) \<noteq> None" "options r OptionFormat = Some v"
      "\<not> resourceFormatRegex_MatchString v" "OptionFormat \<in> set ks"
    using that by (intro IsValid_fails_if_invalid [of r OptionFormat]) (simp_all add: entry_error_fmt)
  have reported: "fst (IsValid e ks r) = Some (InvalidResourceOptions (InvalidFormat v))"
    if "validResources (resource r) \<noteq> None" "options r OptionFormat = Some v"
      "\<not> resourceFormatRegex_MatchString v"
      "ks = pre @ OptionFormat # post" "\<forall>j\<in>set pre. entry_error e r j = None"
    using that by (intro IsValid_first_invalid [of r ks pre OptionFormat post]) (simp_all add: entry_error_fmt)
  have success: "resourceFormatRegex_MatchString v \<and> format (snd (IsValid e ks r)) = v"
    if v: "options r OptionFormat = Some v" and k: "OptionFormat \<in> set ks"
      and ok: "fst (IsValid e ks r) = None"
  proof -
    from IsValid_success_reaches [OF ok k]
    obtain pre' post' where sup: "validResources (resource r) \<noteq> None"
      and ent: "entry_error e r OptionFormat = None"
      and ks: "ks = pre' @ OptionFormat # post'" and pre: "\<forall>j\<in>set pre'. entry_error e r j = None"
      by auto
    from ent v have m: "resourceFormatRegex_MatchString v"
      by (simp add: entry_error_fmt split: if_splits)
    from sup ks pre ent obtain K where "OptionFormat \<in> K" "snd (IsValid e ks r) = settle e K r"
      using IsValid_reached [of r ks pre' OptionFormat post' e] by auto
    with v m show ?thesis by (simp add: settle_fields cached_bound)
  qed
  have absent: "format (snd (IsValid e ks r)) = format r" if "options r OptionFormat = None"
  proof -
    obtain K where "snd (IsValid e ks r) = settle e K r" using IsValid_state [of ks e r] by auto
    with that show ?thesis by (simp add: settle_fields cached_unbound)
  qed
  have yaml: "format defaultVaultResource = ''yaml''" by (simp add: defaultVaultResource_def)
  show ?thesis
    unfolding literal_keys using cached_v fails reported success absent yaml by simp
qed

theorem format_option_witness:
  "fst (IsValid example_env [''up'', ''fmt''] bad_format) =
     Some (InvalidResourceOptions (InvalidFormat ''xml'')) \<and>
   fst (IsValid example_env [''up'', ''fmt''] bad_format_and_update) \<noteq> None \<and>
   format (snd (IsValid example_env [''up'', ''fmt''] example_secret)) = ''json'' \<and>
   (resourceFormatRegex_MatchString ''json'' \<and>
    format (snd (IsValid example_env [''fmt'', ''up''] example_secret)) = ''json'') \<and>
   format (snd (IsValid example_env [''rn'', ''rv'', ''up''] renewed_and_revoked)) = ''yaml''"
proof (intro conjI)
  have bad: "validResources (resource bad_format) \<noteq> None \<and>
      options bad_format ''fmt'' = Some ''xml'' \<and> \<not> resourceFormatRegex_MatchString ''xml'' \<and>
      [''up'', ''fmt''] = [''up''] @ ''fmt'' # [] \<and>
      (\<forall>j\<in>set [''up'']. entry_error example_env bad_format j = None)"
    by (simp add: example_secret_def bad_format_and_update_def bad_format_def renewed_and_revoked_def defaultVaultResource_def run)
  show "fst (IsValid example_env [''up'', ''fmt''] bad_format) =
      Some (InvalidResourceOptions (InvalidFormat ''xml''))"
    by (rule format_option [of bad_format "''xml''" "[''up'', ''fmt'']" example_env "[''up'']" "[]",
          THEN conjunct2, THEN conjunct1, THEN mp]) (rule bad)
  have worse: "validResources (resource bad_format_and_update) \<noteq> None \<and>
      options bad_format_and_update ''fmt'' = Some ''xml'' \<and>
      \<not> resourceFormatRegex_MatchString ''xml'' \<and> ''fmt'' \<in> set [''up'', ''fmt'']"
    by (simp add: example_secret_def bad_format_and_update_def bad_format_def renewed_and_revoked_def defaultVaultResource_def run)
  show "fst (IsValid example_env [''up'', ''fmt''] bad_format_and_update) \<noteq> None"
    by (rule format_option [of bad_format_and_update "''xml''" "[''up'', ''fmt'']" example_env,
          THEN conjunct1, THEN mp]) (rule worse)
  have good: "validResources (resource example_secret) \<noteq> None \<and>
      options example_secret ''fmt'' = Some ''json'' \<and> resourceFormatRegex_MatchString ''json'' \<and>
      [''up'', ''fmt''] = [''up''] @ ''fmt'' # [] \<and>
      (\<forall>j\<in>set [''up'']. entry_error example_env example_secret j = None)"
    by (simp add: example_secret_def bad_format_and_update_def bad_format_def renewed_and_revoked_def defaultVaultResource_def run)
  show "format (snd (IsValid example_env [''up'', ''fmt''] example_secret)) = ''json''"
    by (rule format_option [of example_secret "''json''" "[''up'', ''fmt'']" example_env "[''up'']" "[]",
          THEN conjunct2, THEN conjunct2, THEN conjunct1, THEN mp]) (rule good)
  have valid: "options example_secret ''fmt'' = Some ''json'' \<and> ''fmt'' \<in> set [''fmt'', ''up''] \<and>
      fst (IsValid example_env [''fmt'', ''up''] example_secret) = None"
    by (simp add: example_secret_def bad_format_and_update_def bad_format_def renewed_and_revoked_def defaultVaultResource_def run)
  have both: "resourceFormatRegex_MatchString ''json'' \<and>
      format (snd (IsValid example_env [''fmt'', ''up''] example_secret)) = ''json''"
    by (rule format_option [of example_secret "''json''" "[''fmt'', ''up'']" example_env,
          THEN conjunct2, THEN conjunct2, THEN conjunct2, THEN conjunct1, THEN mp]) (rule valid)
  from both show "resourceFormatRegex_MatchString ''json''" ..
  from both show "format (snd (IsValid example_env [''fmt'', ''up''] example_secret)) = ''json''" ..
  have absent: "options renewed_and_revoked ''fmt'' = None \<and>
      format renewed_and_revoked = format defaultVaultResource"
    by (simp add: example_secret_def bad_format_and_update_def bad_format_def renewed_and_revoked_def defaultVaultResource_def)
  show "format (snd (IsValid example_env [''rn'', ''rv'', ''up''] renewed_and_revoked)) = ''yaml''"
    by (rule format_option [of renewed_and_revoked _ "[''rn'', ''rv'', ''up'']" example_env,
          THEN conjunct2, THEN conjunct2, THEN conjunct2, THEN conjunct2, THEN conjunct2, THEN mp])
       (rule absent)
qed

theorem format_option_counterexample:
  "validResources (resource bad_format_and_update) \<noteq> None \<and>
   options bad_format_and_update ''fmt'' = Some ''xml'' \<and>
   \<not> resourceFormatRegex_MatchString ''xml'' \<and>
   range_order (options bad_format_and_update) [''up'', ''fmt''] \<and>
   fst (IsValid example_env [''up'', ''fmt''] bad_format_and_update) =
     Some (InvalidResourceOptions (InvalidDuration ''abc'')) \<and>
   options bad_update ''fmt'' = Some ''json'' \<and> resourceFormatRegex_MatchString ''json'' \<and>
   range_order (options bad_update) [''up'', ''fmt''] \<and>
   format (snd (IsValid example_env [''up'', ''fmt''] bad_update)) = ''yaml''"
  by (auto simp add: bad_format_and_update_def bad_update_def defaultVaultResource_def run)

subsection \<open>The update, revoke and renewal options\<close>

text \<open>
  C3 (as amended). Let the resource type be supported and let no entry visited before
  the key in question be invalid. If the options bind \<open>up\<close> to \<open>v\<close>: when \<open>v\<close> parses
  as the duration \<open>d\<close>, the update field holds \<open>d\<close> after the call, and when \<open>v\<close> does not
  parse, validation fails with \<open>InvalidDuration v\<close>. If the options bind \<open>rv\<close> (or \<open>rn\<close>)
  to \<open>v\<close>: when \<open>v\<close> parses as the boolean \<open>c\<close>, the revoked (or renewable) field holds
  \<open>c\<close> after the call, and when it does not, validation fails with \<open>InvalidBoolean\<close> for
  that key and value. Whatever is visited first, an unparseable value of one of the three
  keys makes validation fail, and after a successful validation the three fields hold
  the parsed values of the keys that are bound.
\<close>

theorem typed_options:
  "(validResources (resource r) \<noteq> None \<and> options r ''up'' = Some v \<and>
      ks = pre @ ''up'' # post \<and> (\<forall>j\<in>set pre. entry_error e r j = None)
      \<longrightarrow> (case ParseDuration e v of
             None \<Rightarrow> fst (IsValid e ks r) = Some (InvalidResourceOptions (InvalidDuration v))
           | Some d \<Rightarrow> update (snd (IsValid e ks r)) = d)) \<and>
   (validResources (resource r) \<noteq> None \<and> options r ''rv'' = Some v \<and>
      ks = pre @ ''rv'' # post \<and> (\<forall>j\<in>set pre. entry_error e r j = None)
      \<longrightarrow> (case ParseBool e v of
             None \<Rightarrow> fst (IsValid e ks r) = Some (InvalidResourceOptions (InvalidBoolean ''rv'' v))
           | Some c \<Rightarrow> revoked (snd (IsValid e ks r)) = c)) \<and>
   (validResources (resource r) \<noteq> None \<and> options r ''rn'' = Some v \<and>
      ks = pre @ ''rn'' # post \<and> (\<forall>j\<in>set pre. entry_error e r j = None)
      \<longrightarrow> (case ParseBool e v of
             None \<Rightarrow> fst (IsValid e ks r) = Some (InvalidResourceOptions (InvalidBoolean ''rn'' v))
           | Some c \<Rightarrow> renewable (snd (IsValid e ks r)) = c)) \<and>
   (validResources (resource r) \<noteq> None \<and>
      (options r ''up'' = Some v \<and> ''up'' \<in> set ks \<and> ParseDuration e v = None \<or>
       options r ''rv'' = Some v \<and> ''rv'' \<in> set ks \<and> ParseBool e v = None \<or>
       options r ''rn'' = Some v \<and> ''rn'' \<in> set ks \<and> ParseBool e v = None)
      \<longrightarrow> fst (IsValid e ks r) \<noteq> None) \<and>
   (fst (IsValid e ks r) = None \<longrightarrow>
      (options r ''up'' = Some v \<and> ''up'' \<in> set ks
         \<longrightarrow> ParseDuration e v = Some (update (snd (IsValid e ks r)))) \<and>
      (options r ''rv'' = Some v \<and> ''rv'' \<in> set ks
         \<longrightarrow> ParseBool e v = Some (revoked (snd (IsValid e ks r)))) \<and>
      (options r ''rn'' = Some v \<and> ''rn'' \<in> set ks
         \<longrightarrow> ParseBool e v = Some (renewable (snd (IsValid e ks r)))))"
proof -
  have reach: "\<exists>K. k \<in> K \<and> snd (IsValid e ks r) = settle e K r"
    if "validResources (resource r) \<noteq> None" "ks = pre @ k # post"
      "\<forall>j\<in>set pre. entry_error e r j = None" "entry_error e r k = None" for k pre post
    using that by (rule IsValid_reached)
  have first: "fst (IsValid e ks r) = Some (InvalidResourceOptions err)"
    if "validResources (resource r) \<noteq> None" "ks = pre @ k # post"
      "\<forall>j\<in>set pre. entry_error e r j = None" "entry_error e r k = Some err" for k pre post err
    using that by (rule IsValid_first_invalid)
  have up: "case ParseDuration e v of
        None \<Rightarrow> fst (IsValid e ks r) = Some (InvalidResourceOptions (InvalidDuration v))
      | Some d \<Rightarrow> update (snd (IsValid e ks r)) = d"
    if sup: "validResources (resource r) \<noteq> None" and v: "options r OptionUpdate = Some v"
      and ks: "ks = pre @ OptionUpdate # post" and pre: "\<forall>j\<in>set pre. entry_error e r j = None"
    for pre post
  proof (cases "ParseDuration e v")
    case None
    with v have "entry_error e r OptionUpdate = Some (InvalidDuration v)"
      by (simp add: entry_error_up)
    with None first [OF sup ks pre] show ?thesis by simp
  next
    case (Some d)
    with v have "entry_error e r OptionUpdate = None" by (simp add: entry_error_up)
    from reach [OF sup ks pre this] obtain K
      where "OptionUpdate \<in> K" "snd (IsValid e ks r) = settle e K r" by auto
    with v Some show ?thesis by (simp add: settle_fields cached_bound)
  qed
  have rv: "case ParseBool e v of
        None \<Rightarrow> fst (IsValid e ks r) = Some (InvalidResourceOptions (InvalidBoolean OptionRevoke v))
      | Some c \<Rightarrow> revoked (snd (IsValid e ks r)) = c"
    if sup: "validResources (resource r) \<noteq> None" and v: "options r OptionRevoke = Some v"
      and ks: "ks = pre @ OptionRevoke # post" and pre: "\<forall>j\<in>set pre. entry_error e r j = None"
    for pre post
  proof (cases "ParseBool e v")
    case None
    with v have "entry_error e r OptionRevoke = Some (InvalidBoolean OptionRevoke v)"
      by (simp add: entry_error_rv)
    with None first [OF sup ks pre] show ?thesis by simp
  next
    case (Some c)
    with v have "entry_error e r OptionRevoke = None" by (simp add: entry_error_rv)
    from reach [OF sup ks pre this] obtain K
      where "OptionRevoke \<in> K" "snd (IsValid e ks r) = settle e K r" by auto
    with v Some show ?thesis by (simp add: settle_fields cached_bound)
  qed
  have rn: "case ParseBool e v of
        None \<Rightarrow> fst (IsValid e ks r) = Some (InvalidResourceOptions (InvalidBoolean OptionRenewal v))
      | Some c \<Rightarrow> renewable (snd (IsValid e ks r)) = c"
    if sup: "validResources (resource r) \<noteq> None" and v: "options r OptionRenewal = Some v"
      and ks: "ks = pre @ OptionRenewal # post" and pre: "\<forall>j\<in>set pre. entry_error e r j = None"
    for pre post
  proof (cases "ParseBool e v")
    case None
    with v have "entry_error e r OptionRenewal = Some (InvalidBoolean OptionRenewal v)"
      by (simp add: entry_error_rn)
    with None first [OF sup ks pre] show ?thesis by simp
  next
    case (Some c)
    with v have "entry_error e r OptionRenewal = None" by (simp add: entry_error_rn)
    from reach [OF sup ks pre this] obtain K
      where "OptionRenewal \<in> K" "snd (IsValid e ks r) = settle e K r" by auto
    with v Some show ?thesis by (simp add: settle_fields cached_bound)
  qed
  have fails: "fst (IsValid e ks r) \<noteq> None"
    if sup: "validResources (resource r) \<noteq> None"
      and bad: "options r OptionUpdate = Some v \<and> OptionUpdate \<in> set ks \<and> ParseDuration e v = None \<or>
        options r OptionRevoke = Some v \<and> OptionRevoke \<in> set ks \<and> ParseBool e v = None \<or>
        options r OptionRenewal = Some v \<and> OptionRenewal \<in> set ks \<and> ParseBool e v = None"
  proof -
    from bad consider
        (u) "options r OptionUpdate = Some v" "OptionUpdate \<in> set ks" "ParseDuration e v = None"
      | (v) "options r OptionRevoke = Some v" "OptionRevoke \<in> set ks" "ParseBool e v = None"
      | (n) "options r OptionRenewal = Some v" "OptionRenewal \<in> set ks" "ParseBool e v = None"
      by auto
    then show ?thesis
    proof cases
      case u
      then have "entry_error e r OptionUpdate \<noteq> None" by (simp add: entry_error_up)
      with sup u(2) show ?thesis by (rule IsValid_fails_if_invalid)
    next
      case v
      then have "entry_error e r OptionRevoke \<noteq> None" by (simp add: entry_error_rv)
      with sup v(2) show ?thesis by (rule IsValid_fails_if_invalid)
    next
      case n
      then have "entry_error e r OptionRenewal \<noteq> None" by (simp add: entry_error_rn)
      with sup n(2) show ?thesis by (rule IsValid_fails_if_invalid)
    qed
  qed
  have settled: "snd (IsValid e ks r) = settle e (set ks) r \<and> (\<forall>k\<in>set ks. entry_error e r k = None)"
    if ok: "fst (IsValid e ks r) = None"
  proof -
    from ok have sup: "validResources (resource r) \<noteq> None"
      by (auto simp add: IsValid_def split: if_splits)
    with ok have "fst (isValidOptions e ks r) = None"
      by (simp add: IsValid_fst split: option.splits)
    then have "\<forall>k\<in>set ks. entry_error e r k = None" by (simp add: isValidOptions_succeeds_iff)
    with sup show ?thesis by (simp add: IsValid_snd isValidOptions_ok)
  qed
  have success:
    "(options r OptionUpdate = Some v \<and> OptionUpdate \<in> set ks
         \<longrightarrow> ParseDuration e v = Some (update (snd (IsValid e ks r)))) \<and>
     (options r OptionRevoke = Some v \<and> OptionRevoke \<in> set ks
         \<longrightarrow> ParseBool e v = Some (revoked (snd (IsValid e ks r)))) \<and>
     (options r OptionRenewal = Some v \<and> OptionRenewal \<in> set ks
         \<longrightarrow> ParseBool e v = Some (renewable (snd (IsValid e ks r))))"
    if ok: "fst (IsValid e ks r) = None"
  proof -
    from settled [OF ok] have st: "snd (IsValid e ks r) = settle e (set ks) r"
      and all: "\<forall>k\<in>set ks. entry_error e r k = None" by simp_all
    have "ParseDuration e v = Some (update (settle e (set ks) r))"
      if "options r OptionUpdate = Some v" "OptionUpdate \<in> set ks"
      using that all by (auto simp add: entry_error_up settle_fields cached_def split: option.splits)
    moreover have "ParseBool e v = Some (revoked (settle e (set ks) r))"
      if "options r OptionRevoke = Some v" "OptionRevoke \<in> set ks"
      using that all by (auto simp add: entry_error_rv settle_fields cached_def split: option.splits)
    moreover have "ParseBool e v = Some (renewable (settle e (set ks) r))"
      if "options r OptionRenewal = Some v" "OptionRenewal \<in> set ks"
      using that all by (auto simp add: entry_error_rn settle_fields cached_def split: option.splits)
    ultimately show ?thesis unfolding st by simp
  qed
  show ?thesis
    unfolding literal_keys using up rv rn fails success by simp
qed

theorem typed_options_witness:
  "update (snd (IsValid example_env [''rn'', ''rv'', ''up''] renewed_and_revoked)) = 45000000000 \<and>
   fst (IsValid example_env [''rn'', ''rv''] bad_revoke) =
     Some (InvalidResourceOptions (InvalidBoolean ''rv'' ''yes'')) \<and>
   renewable (snd (IsValid example_env [''rn'', ''rv'', ''up''] renewed_and_revoked)) = True \<and>
   fst (IsValid example_env [''fmt'', ''up''] bad_format_and_update) \<noteq> None \<and>
   strconv_ParseBool ''T'' =
     Some (revoked (snd (IsValid example_env [''up'', ''rv'', ''rn''] renewed_and_revoked)))"
proof (intro conjI)
  have good: "validResources (resource renewed_and_revoked) \<noteq> None \<and>
      options renewed_and_revoked ''up'' = Some ''45s'' \<and>
      [''rn'', ''rv'', ''up''] = [''rn'', ''rv''] @ ''up'' # [] \<and>
      (\<forall>j\<in>set [''rn'', ''rv'']. entry_error example_env renewed_and_revoked j = None)"
    by (simp add: bad_format_and_update_def renewed_and_revoked_def bad_revoke_def defaultVaultResource_def run)
  have "case ParseDuration example_env ''45s'' of
      None \<Rightarrow> fst (IsValid example_env [''rn'', ''rv'', ''up''] renewed_and_revoked) =
        Some (InvalidResourceOptions (InvalidDuration ''45s''))
    | Some d \<Rightarrow> update (snd (IsValid example_env [''rn'', ''rv'', ''up''] renewed_and_revoked)) = d"
    by (rule typed_options [of renewed_and_revoked "''45s''" "[''rn'', ''rv'', ''up'']"
          "[''rn'', ''rv'']" "[]" example_env, THEN conjunct1, THEN mp]) (rule good)
  then show "update (snd (IsValid example_env [''rn'', ''rv'', ''up''] renewed_and_revoked)) =
      45000000000"
    by (simp add: example_env_def)
  have bad: "validResources (resource bad_revoke) \<noteq> None \<and>
      options bad_revoke ''rv'' = Some ''yes'' \<and>
      [''rn'', ''rv''] = [''rn''] @ ''rv'' # [] \<and>
      (\<forall>j\<in>set [''rn'']. entry_error example_env bad_revoke j = None)"
    by (simp add: bad_format_and_update_def renewed_and_revoked_def bad_revoke_def defaultVaultResource_def run)
  have "case ParseBool example_env ''yes'' of
      None \<Rightarrow> fst (IsValid example_env [''rn'', ''rv''] bad_revoke) =
        Some (InvalidResourceOptions (InvalidBoolean ''rv'' ''yes''))
    | Some c \<Rightarrow> revoked (snd (IsValid example_env [''rn'', ''rv''] bad_revoke)) = c"
    by (rule typed_options [of bad_revoke "''yes''" "[''rn'', ''rv'']" "[''rn'']" "[]" example_env,
          THEN conjunct2, THEN conjunct1, THEN mp]) (rule bad)
  then show "fst (IsValid example_env [''rn'', ''rv''] bad_revoke) =
      Some (InvalidResourceOptions (InvalidBoolean ''rv'' ''yes''))"
    by (simp add: example_env_def strconv_ParseBool_def)
  have renew: "validResources (resource renewed_and_revoked) \<noteq> None \<and>
      options renewed_and_revoked ''rn'' = Some ''true'' \<and>
      [''rn'', ''rv'', ''up''] = [] @ ''rn'' # [''rv'', ''up''] \<and>
      (\<forall>j\<in>set []. entry_error example_env renewed_and_revoked j = None)"
    by (simp add: bad_format_and_update_def renewed_and_revoked_def bad_revoke_def defaultVaultResource_def run)
  have "case ParseBool example_env ''true'' of
      None \<Rightarrow> fst (IsValid example_env [''rn'', ''rv'', ''up''] renewed_and_revoked) =
        Some (InvalidResourceOptions (InvalidBoolean ''rn'' ''true''))
    | Some c \<Rightarrow> renewable (snd (IsValid example_env [''rn'', ''rv'', ''up''] renewed_and_revoked)) = c"
    by (rule typed_options [of renewed_and_revoked "''true''" "[''rn'', ''rv'', ''up'']"
          "[]" "[''rv'', ''up'']" example_env,
          THEN conjunct2, THEN conjunct2, THEN conjunct1, THEN mp]) (rule renew)
  then show "renewable (snd (IsValid example_env [''rn'', ''rv'', ''up''] renewed_and_revoked)) = True"
    by (simp add: example_env_def strconv_ParseBool_def)
  have unparsed: "validResources (resource bad_format_and_update) \<noteq> None \<and>
      (options bad_format_and_update ''up'' = Some ''abc'' \<and> ''up'' \<in> set [''fmt'', ''up''] \<and>
         ParseDuration example_env ''abc'' = None \<or>
       options bad_format_and_update ''rv'' = Some ''abc'' \<and> ''rv'' \<in> set [''fmt'', ''up''] \<and>
         ParseBool example_env ''abc'' = None \<or>
       options bad_format_and_update ''rn'' = Some ''abc'' \<and> ''rn'' \<in> set [''fmt'', ''up''] \<and>
         ParseBool example_env ''abc'' = None)"
    by (simp add: bad_format_and_update_def renewed_and_revoked_def bad_revoke_def defaultVaultResource_def run)
  show "fst (IsValid example_env [''fmt'', ''up''] bad_format_and_update) \<noteq> None"
    by (rule typed_options [of bad_format_and_update "''abc''" "[''fmt'', ''up'']" _ _ example_env,
          THEN conjunct2, THEN conjunct2, THEN conjunct2, THEN conjunct1, THEN mp]) (rule unparsed)
  have valid: "fst (IsValid example_env [''up'', ''rv'', ''rn''] renewed_and_revoked) = None"
    by (simp add: bad_format_and_update_def renewed_and_revoked_def bad_revoke_def defaultVaultResource_def run)
  have revoke: "options renewed_and_revoked ''rv'' = Some ''T'' \<and> ''rv'' \<in> set [''up'', ''rv'', ''rn'']"
    by (simp add: bad_format_and_update_def renewed_and_revoked_def bad_revoke_def defaultVaultResource_def)
  have "ParseBool example_env ''T'' =
      Some (revoked (snd (IsValid example_env [''up'', ''rv'', ''rn''] renewed_and_revoked)))"
    by (rule typed_options [of renewed_and_revoked "''T''" "[''up'', ''rv'', ''rn'']" _ _ example_env,
          THEN conjunct2, THEN conjunct2, THEN conjunct2, THEN conjunct2, THEN mp, OF valid,
          THEN conjunct2, THEN conjunct1, THEN mp]) (rule revoke)
  then show "strconv_ParseBool ''T'' =
      Some (revoked (snd (IsValid example_env [''up'', ''rv'', ''rn''] renewed_and_revoked)))"
    by (simp add: example_env_def)
qed

theorem typed_options_counterexample:
  "validResources (resource bad_format_and_update) \<noteq> None \<and>
   options bad_format_and_update ''up'' = Some ''abc'' \<and>
   ParseDuration example_env ''abc'' = None \<and>
   range_order (options bad_format_and_update) [''fmt'', ''up''] \<and>
   fst (IsValid example_env [''fmt'', ''up''] bad_format_and_update) =
     Some (InvalidResourceOptions (InvalidFormat ''xml'')) \<and>
   options bad_format ''up'' = Some ''2h'' \<and>
   ParseDuration example_env ''2h'' = Some 7200000000000 \<and>
   range_order (options bad_format) [''fmt'', ''up''] \<and>
   update (snd (IsValid example_env [''fmt'', ''up''] bad_format)) = 0 \<and>
   options bad_format_and_renewal ''rn'' = Some ''maybe'' \<and>
   ParseBool example_env ''maybe'' = None \<and>
   range_order (options bad_format_and_renewal) [''fmt'', ''rn''] \<and>
   fst (IsValid example_env [''fmt'', ''rn''] bad_format_and_renewal) =
     Some (InvalidResourceOptions (InvalidFormat ''xml''))"
  by (auto simp add: bad_format_and_update_def bad_format_and_renewal_def bad_format_def defaultVaultResource_def run)

subsection \<open>The template option\<close>

text \<open>
  C5 (as amended). The filesystem is the oracle \<open>fileExists e\<close>. Let the options bind
  \<open>tpl\<close> to the path \<open>p\<close>. If the oracle denies \<open>p\<close> and the resource type is supported,
  validation fails in every order that visits \<open>tpl\<close>, and it fails with
  \<open>TemplateNotFound p\<close> when no entry visited before \<open>tpl\<close> is invalid. If the oracle
  grants \<open>p\<close>, the visit of \<open>tpl\<close> reports no error and leaves the descriptor as it was,
  and a tpl descriptor whose other entries are valid is accepted.
\<close>

theorem template_option:
  "(validResources (resource r) \<noteq> None \<and> options r ''tpl'' = Some p \<and> \<not> fileExists e p \<and>
      ''tpl'' \<in> set ks
      \<longrightarrow> fst (IsValid e ks r) \<noteq> None) \<and>
   (validResources (resource r) \<noteq> None \<and> options r ''tpl'' = Some p \<and> \<not> fileExists e p \<and>
      ks = pre @ ''tpl'' # post \<and> (\<forall>j\<in>set pre. entry_error e r j = None)
      \<longrightarrow> fst (IsValid e ks r) = Some (InvalidResourceOptions (TemplateNotFound p))) \<and>
   (options r ''tpl'' = Some p \<and> fileExists e p
      \<longrightarrow> entry_error e r ''tpl'' = None \<and> isValidOption e ''tpl'' p r = (None, r)) \<and>
   (resource r = ''tpl'' \<and> options r ''tpl'' = Some p \<and> fileExists e p \<and>
      (\<forall>k\<in>set ks. k \<noteq> ''tpl'' \<longrightarrow> entry_error e r k = None)
      \<longrightarrow> fst (IsValid e ks r) = None)"
proof -
  have fails: "fst (IsValid e ks r) \<noteq> None"
    if "validResources (resource r) \<noteq> None" "options r OptionTemplatePath = Some p"
      "\<not> fileExists e p" "OptionTemplatePath \<in> set ks"
    using that
    by (intro IsValid_fails_if_invalid [of r OptionTemplatePath]) (simp_all add: entry_error_tpl)
  have reported: "fst (IsValid e ks r) = Some (InvalidResourceOptions (TemplateNotFound p))"
    if "validResources (resource r) \<noteq> None" "options r OptionTemplatePath = Some p"
      "\<not> fileExists e p"
      "ks = pre @ OptionTemplatePath # post" "\<forall>j\<in>set pre. entry_error e r j = None"
    using that
    by (intro IsValid_first_invalid [of r ks pre OptionTemplatePath post])
       (simp_all add: entry_error_tpl)
  have passes: "entry_error e r OptionTemplatePath = None \<and>
      isValidOption e OptionTemplatePath p r = (None, r)"
    if "options r OptionTemplatePath = Some p" "fileExists e p"
    using that by (simp add: entry_error_tpl isValidOption_tpl)
  have accepted: "fst (IsValid e ks r) = None"
    if res: "resource r = OptionTemplatePath" and p: "options r OptionTemplatePath = Some p"
      and ex: "fileExists e p"
      and others: "\<forall>k\<in>set ks. k \<noteq> OptionTemplatePath \<longrightarrow> entry_error e r k = None"
  proof -
    from res have tpl: "resource r = ''tpl''" by (simp add: OptionTemplatePath_def)
    from p ex have "entry_error e r OptionTemplatePath = None" by (simp add: entry_error_tpl)
    with others have "\<forall>k\<in>set ks. entry_error e r k = None" by (metis (full_types))
    then have "fst (isValidOptions e ks r) = None" by (simp add: isValidOptions_succeeds_iff)
    moreover have "isValidResource r = None" using tpl p by (simp add: isValidResource_def)
    moreover have "validResources (resource r) \<noteq> None"
      using tpl by (simp add: validResources_supported)
    ultimately show ?thesis by (simp add: IsValid_fst)
  qed
  show ?thesis
    unfolding literal_keys using fails reported passes accepted by simp
qed

theorem template_option_witness:
  "fst (IsValid example_env [''up'', ''tpl''] template_missing) =
     Some (InvalidResourceOptions (TemplateNotFound ''/etc/missing'')) \<and>
   fst (IsValid example_env [''up'', ''tpl''] template_missing_and_bad_update) \<noteq> None \<and>
   (entry_error example_env template_present ''tpl'' = None \<and>
    isValidOption example_env ''tpl'' ''/etc/motd'' template_present = (None, template_present)) \<and>
   fst (IsValid example_env [''up'', ''tpl''] template_present) = None"
proof (intro conjI)
  have missing: "validResources (resource template_missing) \<noteq> None \<and>
      options template_missing ''tpl'' = Some ''/etc/missing'' \<and>
      \<not> fileExists example_env ''/etc/missing'' \<and>
      [''up'', ''tpl''] = [''up''] @ ''tpl'' # [] \<and>
      (\<forall>j\<in>set [''up'']. entry_error example_env template_missing j = None)"
    by (simp add: template_present_def template_missing_and_bad_update_def template_missing_def defaultVaultResource_def run)
  show "fst (IsValid example_env [''up'', ''tpl''] template_missing) =
      Some (InvalidResourceOptions (TemplateNotFound ''/etc/missing''))"
    by (rule template_option [of template_missing "''/etc/missing''" example_env "[''up'', ''tpl'']"
          "[''up'']" "[]", THEN conjunct2, THEN conjunct1, THEN mp]) (rule missing)
  have worse: "validResources (resource template_missing_and_bad_update) \<noteq> None \<and>
      options template_missing_and_bad_update ''tpl'' = Some ''/etc/missing'' \<and>
      \<not> fileExists example_env ''/etc/missing'' \<and> ''tpl'' \<in> set [''up'', ''tpl'']"
    by (simp add: template_present_def template_missing_and_bad_update_def template_missing_def defaultVaultResource_def run)
  show "fst (IsValid example_env [''up'', ''tpl''] template_missing_and_bad_update) \<noteq> None"
    by (rule template_option [of template_missing_and_bad_update "''/etc/missing''" example_env
          "[''up'', ''tpl'']", THEN conjunct1, THEN mp]) (rule worse)
  have granted: "options template_present ''tpl'' = Some ''/etc/motd'' \<and>
      fileExists example_env ''/etc/motd''"
    by (simp add: template_present_def template_missing_and_bad_update_def template_missing_def defaultVaultResource_def run)
  have passes: "entry_error example_env template_present ''tpl'' = None \<and>
      isValidOption example_env ''tpl'' ''/etc/motd'' template_present = (None, template_present)"
    by (rule template_option [of template_present "''/etc/motd''" example_env,
          THEN conjunct2, THEN conjunct2, THEN conjunct1, THEN mp]) (rule granted)
  from passes show "entry_error example_env template_present ''tpl'' = None" ..
  from passes
  show "isValidOption example_env ''tpl'' ''/etc/motd'' template_present = (None, template_present)" ..
  have present: "resource template_present = ''tpl'' \<and>
      options template_present ''tpl'' = Some ''/etc/motd'' \<and> fileExists example_env ''/etc/motd'' \<and>
      (\<forall>k\<in>set [''up'', ''tpl'']. k \<noteq> ''tpl'' \<longrightarrow> entry_error example_env template_present k = None)"
    by (simp add: template_present_def template_missing_and_bad_update_def template_missing_def defaultVaultResource_def run)
  show "fst (IsValid example_env [''up'', ''tpl''] template_present) = None"
    by (rule template_option [of template_present "''/etc/motd''" example_env "[''up'', ''tpl'']",
          THEN conjunct2, THEN conjunct2, THEN conjunct2, THEN mp]) (rule present)
qed

theorem template_option_counterexample:
  "validResources (resource template_missing_and_bad_update) \<noteq> None \<and>
   options template_missing_and_bad_update ''tpl'' = Some ''/etc/missing'' \<and>
   \<not> fileExists example_env ''/etc/missing'' \<and>
   range_order (options template_missing_and_bad_update) [''up'', ''tpl''] \<and>
   fst (IsValid example_env [''up'', ''tpl''] template_missing_and_bad_update) =
     Some (InvalidResourceOptions (InvalidDuration ''abc''))"
  by (auto simp add: template_missing_and_bad_update_def defaultVaultResource_def run)

subsection \<open>What a rejected descriptor looks like\<close>

text \<open>
  C8 (as amended). A call reports at most one error, and exactly one when it fails. It
  never changes the resource type, the name or the options. A descriptor rejected by
  the resource-type check is left as it was. A descriptor rejected at an entry of its
  options is left as the visits before that entry left it, so the fields cached from
  the entries visited earlier are kept. In every case each of the four cached fields
  either has the value it had before the call or holds the parsed value of its own
  option.
\<close>

theorem rejected_descriptor:
  "options (snd (IsValid e ks r)) = options r \<and>
   resource (snd (IsValid e ks r)) = resource r \<and>
   name (snd (IsValid e ks r)) = name r \<and>
   (fst (IsValid e ks r) \<noteq> None \<longrightarrow> (\<exists>!err. fst (IsValid e ks r) = Some err)) \<and>
   (validResources (resource r) = None \<longrightarrow> snd (IsValid e ks r) = r) \<and>
   (validResources (resource r) \<noteq> None \<and> ks = pre @ k # post \<and>
      (\<forall>j\<in>set pre. entry_error e r j = None) \<and> entry_error e r k \<noteq> None
      \<longrightarrow> snd (IsValid e ks r) = snd (isValidOptions e pre r)) \<and>
   (format (snd (IsValid e ks r)) = format r \<or>
      options r ''fmt'' = Some (format (snd (IsValid e ks r)))) \<and>
   (update (snd (IsValid e ks r)) = update r \<or>
      (\<exists>v. options r ''up'' = Some v \<and> ParseDuration e v = Some (update (snd (IsValid e ks r))))) \<and>
   (revoked (snd (IsValid e ks r)) = revoked r \<or>
      (\<exists>v. options r ''rv'' = Some v \<and> ParseBool e v = Some (revoked (snd (IsValid e ks r))))) \<and>
   (renewable (snd (IsValid e ks r)) = renewable r \<or>
      (\<exists>v. options r ''rn'' = Some v \<and> ParseBool e v = Some (renewable (snd (IsValid e ks r)))))"
proof -
  obtain K where st: "snd (IsValid e ks r) = settle e K r"
    using IsValid_state [of ks e r] by auto
  have one: "\<exists>!err. fst (IsValid e ks r) = Some err" if "fst (IsValid e ks r) \<noteq> None"
    using that by auto
  have untouched: "snd (IsValid e ks r) = r" if "validResources (resource r) = None"
    using that by (simp add: IsValid_unsupported)
  have partial: "snd (IsValid e ks r) = snd (isValidOptions e pre r)"
    if sup: "validResources (resource r) \<noteq> None" and ks: "ks = pre @ k # post"
      and pre: "\<forall>j\<in>set pre. entry_error e r j = None" and k: "entry_error e r k \<noteq> None"
  proof -
    from k obtain err where "entry_error e r k = Some err" by auto
    with pre have "snd (isValidOptions e (pre @ k # post) r) = settle e (set pre) r"
      by (simp add: isValidOptions_fail_at)
    moreover from pre have "snd (isValidOptions e pre r) = settle e (set pre) r"
      by (simp add: isValidOptions_ok)
    ultimately show ?thesis using sup ks by (simp add: IsValid_snd)
  qed
  have fmt: "format (settle e K r) = format r \<or>
      options r OptionFormat = Some (format (settle e K r))"
    using cached_choice [of "options r" K OptionFormat Some "format r"]
    by (auto simp add: settle_fields)
  have up: "update (settle e K r) = update r \<or>
      (\<exists>v. options r OptionUpdate = Some v \<and> ParseDuration e v = Some (update (settle e K r)))"
    using cached_choice [of "options r" K OptionUpdate "ParseDuration e" "update r"]
    by (simp add: settle_fields)
  have rv: "revoked (settle e K r) = revoked r \<or>
      (\<exists>v. options r OptionRevoke = Some v \<and> ParseBool e v = Some (revoked (settle e K r)))"
    using cached_choice [of "options r" K OptionRevoke "ParseBool e" "revoked r"]
    by (simp add: settle_fields)
  have rn: "renewable (settle e K r) = renewable r \<or>
      (\<exists>v. options r OptionRenewal = Some v \<and> ParseBool e v = Some (renewable (settle e K r)))"
    using cached_choice [of "options r" K OptionRenewal "ParseBool e" "renewable r"]
    by (simp add: settle_fields)
  show ?thesis
    unfolding literal_keys
    using IsValid_frame [of e ks r] one untouched partial fmt up rv rn
    unfolding st [symmetric] by simp
qed

theorem rejected_descriptor_witness:
  "snd (IsValid example_env [''fmt'', ''up''] bad_update) =
     snd (isValidOptions example_env [''fmt''] bad_update) \<and>
   snd (IsValid example_env [''fmt''] unsupported_with_bad_format) = unsupported_with_bad_format \<and>
   (\<exists>!err. fst (IsValid example_env [''fmt'', ''up''] bad_update) = Some err)"
proof (intro conjI)
  have hyp: "validResources (resource bad_update) \<noteq> None \<and>
      [''fmt'', ''up''] = [''fmt''] @ ''up'' # [] \<and>
      (\<forall>j\<in>set [''fmt'']. entry_error example_env bad_update j = None) \<and>
      entry_error example_env bad_update ''up'' \<noteq> None"
    by (simp add: bad_update_def unsupported_with_bad_format_def defaultVaultResource_def run)
  show "snd (IsValid example_env [''fmt'', ''up''] bad_update) =
      snd (isValidOptions example_env [''fmt''] bad_update)"
    by (rule rejected_descriptor [of example_env "[''fmt'', ''up'']" bad_update "[''fmt'']" "''up''" "[]",
          THEN conjunct2, THEN conjunct2, THEN conjunct2, THEN conjunct2, THEN conjunct2,
          THEN conjunct1, THEN mp]) (rule hyp)
  have unsupported: "validResources (resource unsupported_with_bad_format) = None"
    by (simp add: bad_update_def unsupported_with_bad_format_def defaultVaultResource_def run)
  show "snd (IsValid example_env [''fmt''] unsupported_with_bad_format) = unsupported_with_bad_format"
    by (rule rejected_descriptor [of example_env "[''fmt'']" unsupported_with_bad_format,
          THEN conjunct2, THEN conjunct2, THEN conjunct2, THEN conjunct2, THEN conjunct1, THEN mp])
       (rule unsupported)
  have failed: "fst (IsValid example_env [''fmt'', ''up''] bad_update) \<noteq> None"
    by (simp add: bad_update_def unsupported_with_bad_format_def defaultVaultResource_def run)
  show "\<exists>!err. fst (IsValid example_env [''fmt'', ''up''] bad_update) = Some err"
    by (rule rejected_descriptor [of example_env "[''fmt'', ''up'']" bad_update,
          THEN conjunct2, THEN conjunct2, THEN conjunct2, THEN conjunct1, THEN mp]) (rule failed)
qed

theorem rejected_descriptor_counterexample:
  "range_order (options bad_update) [''fmt'', ''up''] \<and>
   fst (IsValid example_env [''fmt'', ''up''] bad_update) =
     Some (InvalidResourceOptions (InvalidDuration ''abc'')) \<and>
   format bad_update = ''yaml'' \<and>
   format (snd (IsValid example_env [''fmt'', ''up''] bad_update)) = ''json''"
  by (auto simp add: bad_update_def defaultVaultResource_def run)

subsection \<open>Independence of the iteration order\<close>

lemma invalid_entry_visited:
  assumes "range_order (options r) ks" and "entry_error e r k \<noteq> None"
  shows "k \<in> set ks"
proof -
  from assms(2) have "options r k \<noteq> None" by (auto simp add: entry_error_def split: option.splits)
  with assms(1) show ?thesis by (auto simp add: range_order_def)
qed

text \<open>
  C9 (as amended). For two orders in which the loop may visit the options of a
  descriptor, validation succeeds in one exactly when it succeeds in the other, and
  then both leave the same descriptor. If some entry of the options is invalid,
  validation fails in every order; when the resource type is supported the error is
  the option error (\<open>InvalidFormat\<close>, \<open>InvalidDuration\<close>, \<open>InvalidBoolean\<close> or
  \<open>TemplateNotFound\<close>) of one of the invalid entries, which one depending on the order,
  and when the resource type is not supported the error is \<open>UnsupportedResourceType\<close>.
\<close>

theorem order_independence:
  "(range_order (options r) ks1 \<and> range_order (options r) ks2 \<longrightarrow>
      (fst (IsValid e ks1 r) = None \<longleftrightarrow> fst (IsValid e ks2 r) = None) \<and>
      (fst (IsValid e ks1 r) = None \<longrightarrow> snd (IsValid e ks1 r) = snd (IsValid e ks2 r))) \<and>
   (range_order (options r) ks1 \<and> (\<exists>k. entry_error e r k \<noteq> None) \<longrightarrow>
      fst (IsValid e ks1 r) \<noteq> None \<and>
      (validResources (resource r) \<noteq> None \<longrightarrow>
         (\<exists>k err. entry_error e r k = Some err \<and>
            fst (IsValid e ks1 r) = Some (InvalidResourceOptions err))) \<and>
      (validResources (resource r) = None \<longrightarrow>
         fst (IsValid e ks1 r) = Some (UnsupportedResourceType (resource r))))"
proof -
  have verdicts: "fst (IsValid e ks1 r) = None \<longleftrightarrow> fst (IsValid e ks2 r) = None"
    if "set ks1 = set ks2"
  proof (cases "validResources (resource r) = None")
    case True
    then show ?thesis by (simp add: IsValid_unsupported)
  next
    case False
    from that have "fst (isValidOptions e ks1 r) = None \<longleftrightarrow> fst (isValidOptions e ks2 r) = None"
      by (simp add: isValidOptions_succeeds_iff)
    with False show ?thesis by (auto simp add: IsValid_fst split: option.splits)
  qed
  have states: "snd (IsValid e ks1 r) = snd (IsValid e ks2 r)"
    if same: "set ks1 = set ks2" and ok: "fst (IsValid e ks1 r) = None"
  proof -
    from ok have sup: "validResources (resource r) \<noteq> None"
      by (auto simp add: IsValid_def split: if_splits)
    with ok have "fst (isValidOptions e ks1 r) = None"
      by (simp add: IsValid_fst split: option.splits)
    then have all1: "\<forall>k\<in>set ks1. entry_error e r k = None"
      by (simp add: isValidOptions_succeeds_iff)
    with same have all2: "\<forall>k\<in>set ks2. entry_error e r k = None" by simp
    from all1 all2 sup same show ?thesis by (simp add: IsValid_snd isValidOptions_ok)
  qed
  have first: "(fst (IsValid e ks1 r) = None \<longleftrightarrow> fst (IsValid e ks2 r) = None) \<and>
      (fst (IsValid e ks1 r) = None \<longrightarrow> snd (IsValid e ks1 r) = snd (IsValid e ks2 r))"
    if "range_order (options r) ks1" "range_order (options r) ks2"
  proof -
    from that have "set ks1 = set ks2" by (simp add: range_order_def)
    with verdicts states show ?thesis by simp
  qed
  have second: "fst (IsValid e ks1 r) \<noteq> None \<and>
      (validResources (resource r) \<noteq> None \<longrightarrow>
         (\<exists>k err. entry_error e r k = Some err \<and>
            fst (IsValid e ks1 r) = Some (InvalidResourceOptions err))) \<and>
      (validResources (resource r) = None \<longrightarrow>
         fst (IsValid e ks1 r) = Some (UnsupportedResourceType (resource r)))"
    if ord: "range_order (options r) ks1" and bad: "\<exists>k. entry_error e r k \<noteq> None"
  proof (cases "validResources (resource r) = None")
    case True
    then show ?thesis by (simp add: IsValid_unsupported)
  next
    case False
    from bad obtain k where k: "entry_error e r k \<noteq> None" by auto
    with ord have "k \<in> set ks1" by (rule invalid_entry_visited)
    with k have "\<not> (\<forall>k\<in>set ks1. entry_error e r k = None)" by auto
    then have "fst (isValidOptions e ks1 r) \<noteq> None" by (simp add: isValidOptions_succeeds_iff)
    then obtain err where err: "fst (isValidOptions e ks1 r) = Some err" by auto
    then obtain k' where "entry_error e r k' = Some err"
      using isValidOptions_error_source [of e ks1 r err] by auto
    moreover from err False have "fst (IsValid e ks1 r) = Some (InvalidResourceOptions err)"
      by (simp add: IsValid_fst)
    ultimately show ?thesis using False by auto
  qed
  from first second show ?thesis by simp
qed

theorem order_independence_witness:
  "fst (IsValid example_env [''up'', ''fmt''] example_secret) = None \<and>
   snd (IsValid example_env [''fmt'', ''up''] example_secret) =
     snd (IsValid example_env [''up'', ''fmt''] example_secret) \<and>
   fst (IsValid example_env [''up'', ''fmt''] bad_format_and_update) \<noteq> None \<and>
   (\<exists>k err. entry_error example_env bad_format_and_update k = Some err \<and>
      fst (IsValid example_env [''up'', ''fmt''] bad_format_and_update) =
        Some (InvalidResourceOptions err)) \<and>
   fst (IsValid example_env [''fmt''] unsupported_with_bad_format) =
     Some (UnsupportedResourceType ''ldap'')"
proof -
  have orders: "range_order (options example_secret) [''fmt'', ''up''] \<and>
      range_order (options example_secret) [''up'', ''fmt'']"
    by (auto simp add: example_secret_def bad_format_and_update_def unsupported_with_bad_format_def defaultVaultResource_def range_order_def)
  have ok: "fst (IsValid example_env [''fmt'', ''up''] example_secret) = None"
    by (simp add: example_secret_def bad_format_and_update_def unsupported_with_bad_format_def defaultVaultResource_def run)
  have bad: "range_order (options bad_format_and_update) [''up'', ''fmt''] \<and>
      (\<exists>k. entry_error example_env bad_format_and_update k \<noteq> None)"
  proof
    show "range_order (options bad_format_and_update) [''up'', ''fmt'']"
      by (auto simp add: example_secret_def bad_format_and_update_def unsupported_with_bad_format_def defaultVaultResource_def range_order_def)
    have "entry_error example_env bad_format_and_update ''fmt'' \<noteq> None"
      by (simp add: example_secret_def bad_format_and_update_def unsupported_with_bad_format_def defaultVaultResource_def run)
    then show "\<exists>k. entry_error example_env bad_format_and_update k \<noteq> None" ..
  qed
  have sup: "validResources (resource bad_format_and_update) \<noteq> None"
    by (simp add: example_secret_def bad_format_and_update_def unsupported_with_bad_format_def defaultVaultResource_def run)
  have worst: "range_order (options unsupported_with_bad_format) [''fmt''] \<and>
      (\<exists>k. entry_error example_env unsupported_with_bad_format k \<noteq> None)"
  proof
    show "range_order (options unsupported_with_bad_format) [''fmt'']"
      by (auto simp add: example_secret_def bad_format_and_update_def unsupported_with_bad_format_def defaultVaultResource_def range_order_def)
    have "entry_error example_env unsupported_with_bad_format ''fmt'' \<noteq> None"
      by (simp add: example_secret_def bad_format_and_update_def unsupported_with_bad_format_def defaultVaultResource_def run)
    then show "\<exists>k. entry_error example_env unsupported_with_bad_format k \<noteq> None" ..
  qed
  have unsup: "validResources (resource unsupported_with_bad_format) = None"
    by (simp add: example_secret_def bad_format_and_update_def unsupported_with_bad_format_def defaultVaultResource_def run)
  note a = order_independence [of example_secret "[''fmt'', ''up'']" "[''up'', ''fmt'']" example_env,
      THEN conjunct1, THEN mp, OF orders]
  note b = order_independence [of bad_format_and_update "[''up'', ''fmt'']" _ example_env,
      THEN conjunct2, THEN mp, OF bad]
  note c = order_independence [of unsupported_with_bad_format "[''fmt'']" _ example_env,
      THEN conjunct2, THEN mp, OF worst, THEN conjunct2, THEN conjunct2, THEN mp, OF unsup]
  from a ok have "fst (IsValid example_env [''up'', ''fmt''] example_secret) = None"
    "snd (IsValid example_env [''fmt'', ''up''] example_secret) =
     snd (IsValid example_env [''up'', ''fmt''] example_secret)"
    by simp_all
  moreover note b [THEN conjunct1] b [THEN conjunct2, THEN conjunct1, THEN mp, OF sup]
  moreover from c have "fst (IsValid example_env [''fmt''] unsupported_with_bad_format) =
      Some (UnsupportedResourceType ''ldap'')"
    by (simp add: example_secret_def bad_format_and_update_def unsupported_with_bad_format_def defaultVaultResource_def)
  ultimately show ?thesis by (intro conjI)
qed

theorem order_independence_counterexample:
  "range_order (options unsupported_with_bad_format) [''fmt''] \<and>
   entry_error example_env unsupported_with_bad_format ''fmt'' = Some (InvalidFormat ''xml'') \<and>
   fst (IsValid example_env [''fmt''] unsupported_with_bad_format) =
     Some (UnsupportedResourceType ''ldap'') \<and>
   range_order (options template_missing_and_bad_format) [''tpl'', ''fmt''] \<and>
   entry_error example_env template_missing_and_bad_format ''fmt'' = Some (InvalidFormat ''xml'') \<and>
   fst (IsValid example_env [''tpl'', ''fmt''] template_missing_and_bad_format) =
     Some (InvalidResourceOptions (TemplateNotFound ''/etc/missing''))"
  by (auto simp add: template_missing_and_bad_format_def unsupported_with_bad_format_def defaultVaultResource_def run)

end
